theory Spec2Isabelle
  imports Complex_Main "HOL-Library.AList" "HOL-Library.Log_Nat"
begin

section \<open>Python values\<close>

text \<open>
  The backend (\<^verbatim>\<open>src/app.py\<close>) passes its results around as Python dictionaries with
  string keys. A dictionary is an association list in insertion order; a literal
  \<^verbatim>\<open>{**d, k: v}\<close> is \<^const>\<open>AList.update\<close> applied to \<open>d\<close> (an existing key keeps its
  place and takes the new value, a new key goes to the end). Looking a key up is
  \<^const>\<open>map_of\<close>, so that a key that was never written reads as \<open>None\<close> of the option type,
  which is different from a key holding Python's \<^verbatim>\<open>None\<close> (\<open>Some VNone\<close>).

  A float is modelled by the rational number it denotes; where the code computes or
  compares with floats, the rounding is written out (section Floating point), and a
  float literal that is only stored in a result is written as the decimal of the
  source. Keypoints, box corners and confidences come out of the models as float32
  values. Text is ASCII; a character is a code point below 256.
\<close>

datatype pyval =
    VNone
  | VBool bool
  | VInt int
  | VFloat rat
  | VStr string
  | VList "pyval list"
  | VDict "(string \<times> pyval) list"

type_synonym pydict = "(string \<times> pyval) list"

text \<open>Truth value of a Python object, as \<^verbatim>\<open>if x:\<close> and \<^verbatim>\<open>not x\<close> read it.\<close>

fun truthy :: "pyval \<Rightarrow> bool" where
  "truthy VNone = False"
| "truthy (VBool b) = b"
| "truthy (VInt i) = (i \<noteq> 0)"
| "truthy (VFloat q) = (q \<noteq> 0)"
| "truthy (VStr s) = (s \<noteq> [])"
| "truthy (VList xs) = (xs \<noteq> [])"
| "truthy (VDict kvs) = (kvs \<noteq> [])"

text \<open>\<^verbatim>\<open>int(x)\<close> on a float: truncation towards zero.\<close>

definition int_trunc :: "rat \<Rightarrow> int" where
  "int_trunc q = (if q < 0 then \<lceil>q\<rceil> else \<lfloor>q\<rfloor>)"

section \<open>Floating point\<close>

text \<open>
  A float is modelled by the rational number it denotes. Binary floating point has
  \<open>p\<close> significant bits (24 for NumPy's float32, 53 for Python's float) and rounds
  to the nearest value, ties to the even significand: \<open>round_to p q\<close> is the value
  that the number \<open>q\<close> is rounded to. The range of the exponent is not bounded here
  (no overflow and no subnormal numbers), which is exact for the pixel coordinates
  and confidences that the code handles.
\<close>

text \<open>The exponent of a positive number: \<open>2 ^ ilog2 q \<le> q < 2 ^ (ilog2 q + 1)\<close>.\<close>

definition ilog2 :: "rat \<Rightarrow> int" where
  "ilog2 q = (if 1 \<le> q then bitlen \<lfloor>q\<rfloor> - 1 else - bitlen (\<lceil>1 / q\<rceil> - 1))"

definition round_half_even :: "rat \<Rightarrow> int" where
  "round_half_even x =
     (let f = \<lfloor>x\<rfloor>; r = x - of_int f
      in if r < 1 / 2 then f else if 1 / 2 < r then f + 1 else if even f then f else f + 1)"

definition round_to :: "nat \<Rightarrow> rat \<Rightarrow> rat" where
  "round_to p q =
     (if q = 0 then 0
      else (let u = 2 powi (ilog2 \<bar>q\<bar> - int p + 1)
            in of_int (round_half_even (q / u)) * u))"

definition float32 :: "rat \<Rightarrow> rat" where
  "float32 q = round_to 24 q"

definition float64 :: "rat \<Rightarrow> rat" where
  "float64 q = round_to 53 q"

section \<open>Exceptions\<close>

text \<open>Exceptions that the modelled code can meet, and \<^verbatim>\<open>str(e)\<close>.\<close>

datatype pyexn =
    IndexError nat nat
  | KeyError string
  | TypeError string
  | ModelError string

type_synonym 'a infer = "pyexn + 'a"

definition digit_char :: "nat \<Rightarrow> char" where
  "digit_char d = char_of (48 + d)"

function show_nat :: "nat \<Rightarrow> string" where
  "show_nat n = (if n < 10 then [digit_char n] else show_nat (n div 10) @ [digit_char (n mod 10)])"
  by pat_completeness auto
termination
  by (relation "measure id") auto

fun str_exn :: "pyexn \<Rightarrow> string" where
  "str_exn (IndexError i n) =
     ''index '' @ show_nat i @ '' is out of bounds for axis 0 with size '' @ show_nat n"
| "str_exn (KeyError k) = [CHR 0x27] @ k @ [CHR 0x27]"
| "str_exn (TypeError m) = m"
| "str_exn (ModelError m) = m"

section \<open>Python string operations\<close>

definition lower_char :: "char \<Rightarrow> char" where
  "lower_char c =
     (let n = (of_char c :: nat) in if 65 \<le> n \<and> n \<le> 90 then char_of (n + 32) else c)"

definition upper_char :: "char \<Rightarrow> char" where
  "upper_char c =
     (let n = (of_char c :: nat) in if 97 \<le> n \<and> n \<le> 122 then char_of (n - 32) else c)"

definition is_alpha :: "char \<Rightarrow> bool" where
  "is_alpha c =
     (let n = (of_char c :: nat) in (65 \<le> n \<and> n \<le> 90) \<or> (97 \<le> n \<and> n \<le> 122))"

text \<open>
  \<^verbatim>\<open>s.lower()\<close>. Only the letters A to Z change; the code uses the lowered text for
  nothing but searching for ASCII words.
\<close>

definition py_lower :: "string \<Rightarrow> string" where
  "py_lower s = map lower_char s"

text \<open>
  \<^verbatim>\<open>s.title()\<close> on ASCII text, which the class names of the classifier are: a letter
  that follows a letter is lowered, any other letter is raised.
\<close>

fun title_from :: "bool \<Rightarrow> string \<Rightarrow> string" where
  "title_from prev [] = []"
| "title_from prev (c # cs) =
     (if is_alpha c then (if prev then lower_char c else upper_char c) # title_from True cs
      else c # title_from False cs)"

definition py_title :: "string \<Rightarrow> string" where
  "py_title s = title_from False s"

text \<open>\<^verbatim>\<open>c.isspace()\<close> for a code point below 256.\<close>

definition is_space :: "char \<Rightarrow> bool" where
  "is_space c =
     (let n = (of_char c :: nat)
      in (9 \<le> n \<and> n \<le> 13) \<or> (28 \<le> n \<and> n \<le> 32) \<or> n = 133 \<or> n = 160)"

text \<open>\<^verbatim>\<open>s.strip()\<close>\<close>

definition py_strip :: "string \<Rightarrow> string" where
  "py_strip s = rev (dropWhile is_space (rev (dropWhile is_space s)))"

text \<open>\<^verbatim>\<open>s.startswith(p)\<close> and \<^verbatim>\<open>needle in hay\<close> on strings.\<close>

fun starts_with :: "string \<Rightarrow> string \<Rightarrow> bool" where
  "starts_with [] s = True"
| "starts_with (p # ps) [] = False"
| "starts_with (p # ps) (c # cs) = (p = c \<and> starts_with ps cs)"

fun py_in :: "string \<Rightarrow> string \<Rightarrow> bool" where
  "py_in needle [] = (needle = [])"
| "py_in needle (c # cs) = (starts_with needle (c # cs) \<or> py_in needle cs)"

text \<open>\<^verbatim>\<open>s.find(c)\<close> for a single character: the first index, or -1.\<close>

definition py_find :: "string \<Rightarrow> char \<Rightarrow> int" where
  "py_find s c = (if c \<in> set s then int (length (takeWhile (\<lambda>d. d \<noteq> c) s)) else - 1)"

text \<open>
  \<^verbatim>\<open>s.split(c, 1)\<close> for a single character: one part when \<open>c\<close> does not occur, else the
  text before the first \<open>c\<close> and the text after it.
\<close>

definition py_split1 :: "string \<Rightarrow> char \<Rightarrow> string list" where
  "py_split1 s c =
     (if c \<in> set s then [takeWhile (\<lambda>d. d \<noteq> c) s, tl (dropWhile (\<lambda>d. d \<noteq> c) s)] else [s])"

section \<open>Waste categories\<close>

text \<open>
  \<^verbatim>\<open>WASTE_CATEGORIES\<close> is a dictionary with exactly the two keys \<^verbatim>\<open>"Recyclable"\<close> and
  \<^verbatim>\<open>"Non-Recyclable"\<close>, and every classification the code computes is one of these two
  literals: the keys are a datatype and the dictionary is a total function on it.
\<close>

datatype category = Recyclable | NonRecyclable

fun category_name :: "category \<Rightarrow> string" where
  "category_name Recyclable = ''Recyclable''"
| "category_name NonRecyclable = ''Non-Recyclable''"

record waste_info =
  color :: string
  description :: string
  disposal_code :: string

fun WASTE_CATEGORIES :: "category \<Rightarrow> waste_info" where
  "WASTE_CATEGORIES Recyclable =
     \<lparr>color = ''Green'',
      description = ''Items that can be recycled: plastic bottles, metal cans, glass, paper, cardboard, electronics'',
      disposal_code = ''REC''\<rparr>"
| "WASTE_CATEGORIES NonRecyclable =
     \<lparr>color = ''Black'',
      description = ''Items that cannot be recycled: food waste, contaminated materials, styrofoam, ceramic'',
      disposal_code = ''NR''\<rparr>"

section \<open>The models as the code sees them\<close>

text \<open>
  One request works on one decoded frame, so each model is given by what its call on
  that frame does: it is not loaded (\<open>None\<close>), or the call raises (\<open>Inl\<close>), or it returns.
\<close>

record image =
  height :: int
  width :: int

record keypoint =
  kp_x :: rat
  kp_y :: rat
  kp_conf :: rat

text \<open>
  One element of the pose model's results: \<open>keypoints\<close> is \<open>None\<close> when the attribute is
  missing or \<^verbatim>\<open>None\<close>, else the keypoint rows of every detected person.
\<close>

record pose_result =
  keypoints :: "keypoint list list option"

text \<open>
  A detection box with its class name (\<^verbatim>\<open>r.names[int(box.cls[0])]\<close>, which the detector
  defines for every class it reports), its confidence and its corner coordinates.
\<close>

record box =
  box_class :: string
  box_conf :: rat
  box_xyxy :: "rat \<times> rat \<times> rat \<times> rat"

record det_result =
  boxes :: "box list option"

text \<open>
  One element of the classifier's results: \<open>probs\<close> is \<open>None\<close> when the attribute is
  missing or \<^verbatim>\<open>None\<close>, else the top-1 class name and its confidence.
\<close>

record cls_result =
  probs :: "(string \<times> rat) option"

text \<open>
  One attempt on a cloud model (upload, generate, delete): it raises, or it returns a
  response whose text may be \<^verbatim>\<open>None\<close>.
\<close>

datatype attempt = Raises pyexn | Response "string option"

text \<open>
  The detector is called with two settings (confidence 0.15 in the person fallback,
  confidence 0.3 and IoU 0.45 in the endpoint), so it is a function of them.
  \<open>format_pct\<close> stands for Python's \<^verbatim>\<open>f"{x:.1f}"\<close> and \<open>imencode\<close> for the JPEG and
  base64 encoding of a crop given by its corners: both produce opaque text.
\<close>

record env =
  pose_model :: "pose_result list infer option"
  yolo_detection_model :: "(rat \<Rightarrow> rat option \<Rightarrow> det_result list infer) option"
  yolo_classification_model :: "cls_result list infer option"
  genai_client :: "(string \<Rightarrow> attempt) option"
  format_pct :: "rat \<Rightarrow> string"
  imencode :: "int \<times> int \<times> int \<times> int \<Rightarrow> string"

section \<open>RecyclableWasteClassifier\<close>

definition get_fallback_classification :: pydict where
  "get_fallback_classification =
     [(''classification'', VStr ''Non-Recyclable''),
      (''item_name'', VStr ''Unknown Item''),
      (''explanation'', VStr ''Could not classify - defaulting to non-recyclable for safety.''),
      (''bin_color'', VStr ''Black''),
      (''disposal_code'', VStr ''NR''),
      (''confidence'', VFloat (50 / 100)),
      (''method'', VStr ''fallback'')]"

definition parse_item_name :: "string \<Rightarrow> string" where
  "parse_item_name text =
     (if CHR '':'' \<in> set text then
        (let parts = py_split1 text CHR '':''
         in if length parts > 1 then
              (let item_info = py_strip (parts ! 1);
                   end = py_find item_info CHR ''.''
               in if end \<noteq> - 1 then py_strip (take (nat end) item_info) else ''Unknown Item'')
            else ''Unknown Item'')
      else ''Unknown Item'')"

definition parse_classification :: "string \<Rightarrow> category" where
  "parse_classification text =
     (let text_lower = py_lower text
      in if py_in ''recyclable'' text_lower \<and> \<not> py_in ''non-recyclable'' text_lower
         then Recyclable else NonRecyclable)"

definition parse_gemini_response :: "string \<Rightarrow> pydict" where
  "parse_gemini_response text =
     (let classification = parse_classification text;
          item_name = parse_item_name text;
          category_info = WASTE_CATEGORIES classification
      in [(''classification'', VStr (category_name classification)),
          (''item_name'', VStr item_name),
          (''explanation'', VStr text),
          (''bin_color'', VStr (color category_info)),
          (''disposal_code'', VStr (disposal_code category_info)),
          (''confidence'', VFloat (85 / 100)),
          (''method'', VStr ''llm'')])"

definition model_names :: "string list" where
  "model_names = [''gemini-2.0-flash-exp'', ''gemini-2.5-flash'', ''gemini-2.5-pro'']"

text \<open>
  The loop over the model names: the first attempt that returns a non-empty text is
  parsed; an attempt that raises or returns no text moves on to the next name.
\<close>

fun try_models :: "(string \<Rightarrow> attempt) \<Rightarrow> string list \<Rightarrow> pydict option" where
  "try_models client [] = None"
| "try_models client (model_name # rest) =
     (case client model_name of
        Raises e \<Rightarrow> try_models client rest
      | Response None \<Rightarrow> try_models client rest
      | Response (Some text) \<Rightarrow>
          if text \<noteq> [] then Some (parse_gemini_response text) else try_models client rest)"

definition classify_with_gemini :: "env \<Rightarrow> pydict" where
  "classify_with_gemini e =
     (case genai_client e of
        None \<Rightarrow> get_fallback_classification
      | Some client \<Rightarrow>
          (case try_models client model_names of
             Some verdict \<Rightarrow> verdict
           | None \<Rightarrow> get_fallback_classification))"

definition recyclable_keywords :: "string list" where
  "recyclable_keywords =
     [''plastic'', ''bottle'', ''can'', ''metal'', ''aluminum'', ''glass'',
      ''paper'', ''cardboard'', ''box'', ''container'', ''jar'', ''tin'']"

definition non_recyclable_keywords :: "string list" where
  "non_recyclable_keywords =
     [''food'', ''organic'', ''waste'', ''styrofoam'', ''ceramic'', ''fabric'']"

definition map_class_to_category :: "string \<Rightarrow> rat \<Rightarrow> category \<times> string" where
  "map_class_to_category name conf =
     (let class_lower = py_lower name
      in if list_ex (\<lambda>k. py_in k class_lower) recyclable_keywords
           then (Recyclable, ''This item can be recycled.'')
         else if list_ex (\<lambda>k. py_in k class_lower) non_recyclable_keywords
           then (NonRecyclable, ''This item cannot be recycled.'')
         else (if conf > float64 (7 / 10) then Recyclable else NonRecyclable,
               ''Classification based on AI analysis.''))"

definition classify_with_yolo_model :: "env \<Rightarrow> pydict" where
  "classify_with_yolo_model e =
     (case yolo_classification_model e of
        None \<Rightarrow> classify_with_gemini e
      | Some (Inl err) \<Rightarrow> classify_with_gemini e
      | Some (Inr []) \<Rightarrow> classify_with_gemini e
      | Some (Inr (r # rs)) \<Rightarrow>
          (case probs r of
             None \<Rightarrow> classify_with_gemini e
           | Some (name, conf) \<Rightarrow>
               (let (cat, reason) = map_class_to_category name conf
                in [(''classification'', VStr (category_name cat)),
                    (''item_name'', VStr (py_title name)),
                    (''explanation'',
                       VStr (''AI model: '' @ format_pct e (float64 (conf * 100)) @ ''% confidence. '' @ reason)),
                    (''bin_color'', VStr (color (WASTE_CATEGORIES cat))),
                    (''disposal_code'', VStr (disposal_code (WASTE_CATEGORIES cat))),
                    (''confidence'', VFloat conf),
                    (''method'', VStr ''yolo_model'')])))"

text \<open>
  The choice of path in \<^verbatim>\<open>classify_waste\<close>: the request's method, \<^verbatim>\<open>"model"\<close> when it is
  missing or empty, lowered; \<^verbatim>\<open>"model"\<close> takes the local classifier, anything else the
  cloud path.
\<close>

definition classify :: "env \<Rightarrow> string option \<Rightarrow> pydict" where
  "classify e classification_method =
     (let method = py_lower (case classification_method of
                               None \<Rightarrow> ''model''
                             | Some m \<Rightarrow> if m = [] then ''model'' else m)
      in if method = ''model'' then classify_with_yolo_model e else classify_with_gemini e)"

section \<open>HandWristDetector\<close>

definition LEFT_WRIST :: nat where "LEFT_WRIST = 9"
definition RIGHT_WRIST :: nat where "RIGHT_WRIST = 10"
definition LEFT_ELBOW :: nat where "LEFT_ELBOW = 7"
definition RIGHT_ELBOW :: nat where "RIGHT_ELBOW = 8"
definition LEFT_SHOULDER :: nat where "LEFT_SHOULDER = 5"
definition RIGHT_SHOULDER :: nat where "RIGHT_SHOULDER = 6"

definition WRIST_CONFIDENCE_THRESHOLD :: rat where
  "WRIST_CONFIDENCE_THRESHOLD = float64 (30 / 100)"

definition box_size :: int where
  "box_size = 250"

text \<open>\<^verbatim>\<open>kpts[i]\<close> on the keypoint array of one person: out of range raises.\<close>

definition kpt_at :: "keypoint list \<Rightarrow> nat \<Rightarrow> keypoint infer" where
  "kpt_at kpts i = (if i < length kpts then Inr (kpts ! i) else Inl (IndexError i (length kpts)))"

text \<open>
  The three places where \<^verbatim>\<open>detect_hand_wrist\<close> gives up return the same dictionary up
  to its message. It has no \<^verbatim>\<open>"method"\<close> key.
\<close>

definition no_detection :: "string \<Rightarrow> pydict" where
  "no_detection msg =
     [(''hand_detected'', VBool False),
      (''wrist_detected'', VBool False),
      (''hand_bbox'', VNone),
      (''wrist_position'', VNone),
      (''confidence'', VFloat 0),
      (''keypoints_count'', VInt 0),
      (''message'', VStr msg)]"

text \<open>What \<^verbatim>\<open>detect_person_fallback\<close> returns when it sees a person.\<close>

definition person_without_wrist :: pydict where
  "person_without_wrist =
     [(''hand_detected'', VBool False),
      (''wrist_detected'', VBool False),
      (''hand_bbox'', VNone),
      (''wrist_position'', VNone),
      (''confidence'', VFloat 0),
      (''keypoints_count'', VInt 0),
      (''message'', VStr ''Person detected but wrist keypoints not found. Please position hand clearly.''),
      (''method'', VStr ''fallback_failed'')]"

definition is_person :: "box \<Rightarrow> bool" where
  "is_person b = (py_lower (box_class b) = ''person'')"

fun person_in_boxes :: "box list \<Rightarrow> bool" where
  "person_in_boxes [] = False"
| "person_in_boxes (b # bs) = (if is_person b then True else person_in_boxes bs)"

fun person_in_results :: "det_result list \<Rightarrow> bool" where
  "person_in_results [] = False"
| "person_in_results (r # rs) =
     (case boxes r of
        None \<Rightarrow> person_in_results rs
      | Some bs \<Rightarrow> if person_in_boxes bs then True else person_in_results rs)"

text \<open>A result of \<open>None\<close> is Python's \<^verbatim>\<open>return None\<close>.\<close>

definition detect_person_fallback :: "env \<Rightarrow> pydict option" where
  "detect_person_fallback e =
     (case yolo_detection_model e of
        None \<Rightarrow> None
      | Some predict \<Rightarrow>
          (case predict (15 / 100) None of
             Inl err \<Rightarrow> None
           | Inr results \<Rightarrow>
               if person_in_results results then Some person_without_wrist else None))"

text \<open>
  The test applied to each wrist in line 322. The confidence is an element of a float32
  array and the threshold is a Python float: NumPy (version 2, where a Python scalar
  takes the type of the array operand) converts the threshold to float32 and compares
  the two float32 values.
\<close>

definition wrist_accepted :: "keypoint \<Rightarrow> bool" where
  "wrist_accepted wrist = (kp_conf wrist > float32 WRIST_CONFIDENCE_THRESHOLD)"

text \<open>The arm whose wrist and elbow are used (lines 323 to 334).\<close>

datatype side = Left | Right

definition select_side :: "keypoint \<Rightarrow> keypoint \<Rightarrow> side" where
  "select_side left_wrist right_wrist =
     (if kp_conf left_wrist > kp_conf right_wrist then Left else Right)"

text \<open>
  The hand region (lines 339 to 366): the wrist in pixels and the corners
  \<open>(x_min, y_min, x_max, y_max)\<close> of the box around the extended hand centre. The
  elbow's confidence is compared as a float32, like the wrist's. The centre is
  computed with Python floats from Python integers: \<^verbatim>\<open>dx * 0.35\<close> converts \<open>dx\<close>,
  multiplies and rounds, and the sum with \<open>wrist_x\<close> rounds again.
\<close>

definition extend_beyond :: "int \<Rightarrow> int \<Rightarrow> int" where
  "extend_beyond wrist d =
     int_trunc (float64 (float64 (of_int wrist) + float64 (float64 (of_int d) * float64 (35 / 100))))"

definition hand_center :: "keypoint \<Rightarrow> keypoint \<Rightarrow> keypoint \<Rightarrow> int \<times> int" where
  "hand_center wrist elbow shoulder =
     (let wrist_x = int_trunc (kp_x wrist);
          wrist_y = int_trunc (kp_y wrist);
          elbow_x = int_trunc (kp_x elbow);
          elbow_y = int_trunc (kp_y elbow);
          dx = (if kp_conf elbow < float32 (float64 (2 / 10))
                then wrist_x - int_trunc (kp_x shoulder)
                else wrist_x - elbow_x);
          dy = (if kp_conf elbow < float32 (float64 (2 / 10))
                then wrist_y - int_trunc (kp_y shoulder)
                else wrist_y - elbow_y)
      in (extend_beyond wrist_x dx, extend_beyond wrist_y dy))"

definition hand_region :: "image \<Rightarrow> int \<times> int \<Rightarrow> int \<times> int \<times> int \<times> int" where
  "hand_region img c =
     (let hand_center_x = fst c;
          hand_center_y = snd c;
          hand_x_min = max 0 (hand_center_x - box_size);
          hand_y_min = max 0 (hand_center_y - box_size);
          hand_x_max = min (width img) (hand_center_x + box_size);
          hand_y_max = min (height img) (hand_center_y + box_size)
      in (hand_x_min, hand_y_min, hand_x_max, hand_y_max))"

text \<open>The dictionary returned for an accepted wrist (lines 336 to 390).\<close>

definition hand_found :: "image \<Rightarrow> keypoint \<Rightarrow> keypoint \<Rightarrow> keypoint \<Rightarrow> nat \<Rightarrow> pydict" where
  "hand_found img wrist elbow shoulder count =
     (let wrist_detected = True;
          hand_confidence = kp_conf wrist;
          wrist_position =
            VDict [(''x'', VInt (int_trunc (kp_x wrist))), (''y'', VInt (int_trunc (kp_y wrist)))];
          (hand_x_min, hand_y_min, hand_x_max, hand_y_max) =
            hand_region img (hand_center wrist elbow shoulder);
          hand_bbox =
            VDict [(''x_min'', VInt hand_x_min),
                   (''y_min'', VInt hand_y_min),
                   (''x_max'', VInt hand_x_max),
                   (''y_max'', VInt hand_y_max)]
      in [(''hand_detected'', VBool True),
          (''wrist_detected'', VBool wrist_detected),
          (''hand_bbox'', hand_bbox),
          (''wrist_position'', wrist_position),
          (''confidence'', VFloat hand_confidence),
          (''keypoints_count'', VInt (int count)),
          (''message'', VStr ''Hand and wrist detected successfully''),
          (''method'', VStr ''pose'')])"

text \<open>
  The body of the loop for the first person of one pose result (lines 296 to 393):
  \<open>Inl\<close> when an index is out of range, \<open>Inr None\<close> when neither wrist is confident
  enough, \<open>Inr (Some d)\<close> when the function returns \<open>d\<close>.
\<close>

definition pose_person :: "image \<Rightarrow> keypoint list \<Rightarrow> pydict option infer" where
  "pose_person img kpts =
     (case kpt_at kpts LEFT_WRIST of Inl err \<Rightarrow> Inl err | Inr left_wrist \<Rightarrow>
      case kpt_at kpts RIGHT_WRIST of Inl err \<Rightarrow> Inl err | Inr right_wrist \<Rightarrow>
      case kpt_at kpts LEFT_ELBOW of Inl err \<Rightarrow> Inl err | Inr left_elbow \<Rightarrow>
      case kpt_at kpts RIGHT_ELBOW of Inl err \<Rightarrow> Inl err | Inr right_elbow \<Rightarrow>
      case kpt_at kpts LEFT_SHOULDER of Inl err \<Rightarrow> Inl err | Inr left_shoulder \<Rightarrow>
      case kpt_at kpts RIGHT_SHOULDER of Inl err \<Rightarrow> Inl err | Inr right_shoulder \<Rightarrow>
        if wrist_accepted left_wrist \<or> wrist_accepted right_wrist
        then (case select_side left_wrist right_wrist of
                Left \<Rightarrow> Inr (Some (hand_found img left_wrist left_elbow left_shoulder (length kpts)))
              | Right \<Rightarrow> Inr (Some (hand_found img right_wrist right_elbow right_shoulder (length kpts))))
        else Inr None)"

fun pose_loop :: "image \<Rightarrow> pose_result list \<Rightarrow> pydict option infer" where
  "pose_loop img [] = Inr None"
| "pose_loop img (r # rs) =
     (case keypoints r of
        None \<Rightarrow> pose_loop img rs
      | Some [] \<Rightarrow> pose_loop img rs
      | Some (kpts # others) \<Rightarrow>
          (case pose_person img kpts of
             Inl err \<Rightarrow> Inl err
           | Inr (Some found) \<Rightarrow> Inr (Some found)
           | Inr None \<Rightarrow> pose_loop img rs))"

text \<open>
  The end of every path that did not find a hand: the person fallback, and the
  dictionary without a hand when the fallback returns nothing.
\<close>

definition or_fallback :: "env \<Rightarrow> string \<Rightarrow> pydict" where
  "or_fallback e msg =
     (case detect_person_fallback e of
        Some fallback_result \<Rightarrow> fallback_result
      | None \<Rightarrow> no_detection msg)"

definition detect_hand_wrist :: "env \<Rightarrow> image \<Rightarrow> pydict" where
  "detect_hand_wrist e img =
     (case pose_model e of
        None \<Rightarrow> or_fallback e ''Pose model not loaded and fallback failed''
      | Some (Inl err) \<Rightarrow> or_fallback e (''Error: '' @ str_exn err)
      | Some (Inr results) \<Rightarrow>
          (case pose_loop img results of
             Inr (Some found) \<Rightarrow> found
           | Inr None \<Rightarrow> or_fallback e ''No person or hands detected''
           | Inl err \<Rightarrow> or_fallback e (''Error: '' @ str_exn err)))"

section \<open>The endpoints\<close>

text \<open>
  What decoding the request's image gives: a frame, or nothing (\<^verbatim>\<open>cv2.imdecode\<close>
  returns \<^verbatim>\<open>None\<close>), or an exception raised while decoding (malformed base64).
\<close>

datatype decode = Decoded image | NotAnImage | DecodeError pyexn

text \<open>
  An endpoint answers with a payload (\<open>Inr\<close>, sent with status 200) or raises an
  \<^verbatim>\<open>HTTPException\<close> (\<open>Inl\<close>), which the framework turns into an error response with
  the given status code.
\<close>

datatype http_exception = HTTPException int string

text \<open>\<^verbatim>\<open>{**d, k1: v1, ..., kn: vn}\<close>\<close>

definition dict_with :: "pydict \<Rightarrow> pydict \<Rightarrow> pydict" where
  "dict_with d kvs = foldl (\<lambda>acc kv. AList.update (fst kv) (snd kv) acc) d kvs"

text \<open>The payload of the two early exits of the detection endpoint.\<close>

definition detection_failed :: "string \<Rightarrow> pydict" where
  "detection_failed msg =
     [(''hand_detected'', VBool False),
      (''wrist_detected'', VBool False),
      (''object_in_hand'', VBool False),
      (''message'', VStr msg)]"

text \<open>The variables that the loop over the detected boxes writes (lines 786 to 790).\<close>

record scan_state =
  object_in_hand :: bool
  object_bbox :: pyval
  cropped_image :: pyval
  max_confidence :: rat
  detected_objects :: "pyval list"

definition scan_init :: scan_state where
  "scan_init =
     \<lparr>object_in_hand = False, object_bbox = VNone, cropped_image = VNone,
      max_confidence = 0, detected_objects = []\<rparr>"

text \<open>\<^verbatim>\<open>map(int, box.xyxy[0])\<close>\<close>

definition box_corners :: "box \<Rightarrow> int \<times> int \<times> int \<times> int" where
  "box_corners b =
     (case box_xyxy b of (x1, y1, x2, y2) \<Rightarrow>
        (int_trunc x1, int_trunc y1, int_trunc x2, int_trunc y2))"

definition box_center :: "box \<Rightarrow> int \<times> int" where
  "box_center b =
     (case box_corners b of (x1, y1, x2, y2) \<Rightarrow> ((x1 + x2) div 2, (y1 + y2) div 2))"

text \<open>The test of lines 814 and 815, on the corners of the hand region.\<close>

definition center_in_hand :: "int \<times> int \<times> int \<times> int \<Rightarrow> box \<Rightarrow> bool" where
  "center_in_hand hb b =
     (case hb of (x_min, y_min, x_max, y_max) \<Rightarrow>
      case box_center b of (center_x, center_y) \<Rightarrow>
        x_min \<le> center_x \<and> center_x \<le> x_max \<and> y_min \<le> center_y \<and> center_y \<le> y_max)"

definition detected_entry :: "box \<Rightarrow> pyval" where
  "detected_entry b =
     (case box_corners b of (x1, y1, x2, y2) \<Rightarrow>
        VDict [(''class'', VStr (box_class b)),
               (''confidence'', VFloat (box_conf b)),
               (''bbox'', VList [VInt x1, VInt y1, VInt x2, VInt y2])])"

definition matched_bbox :: "box \<Rightarrow> pyval" where
  "matched_bbox b =
     (case box_corners b of (x1, y1, x2, y2) \<Rightarrow>
        VDict [(''x_min'', VInt x1), (''y_min'', VInt y1),
               (''x_max'', VInt x2), (''y_max'', VInt y2),
               (''class'', VStr (box_class b)),
               (''confidence'', VFloat (box_conf b))])"

text \<open>
  The number of elements of \<^verbatim>\<open>a[start:stop]\<close> along an axis of length \<open>n\<close>: a negative
  index counts from the end, and both are clipped to the axis.
\<close>

definition slice_len :: "int \<Rightarrow> int \<Rightarrow> int \<Rightarrow> int" where
  "slice_len n start stop =
     (let clip = (\<lambda>i. if i < 0 then max 0 (n + i) else min n i)
      in max 0 (clip stop - clip start))"

text \<open>The crop of the matched box (lines 826 to 837): \<open>None\<close> when the crop is empty.\<close>

definition crop_object :: "env \<Rightarrow> image \<Rightarrow> box \<Rightarrow> string option" where
  "crop_object e img b =
     (case box_corners b of (x1, y1, x2, y2) \<Rightarrow>
        (let crop_x1 = max 0 (x1 - 20);
             crop_y1 = max 0 (y1 - 20);
             crop_x2 = min (width img) (x2 + 20);
             crop_y2 = min (height img) (y2 + 20)
         in if slice_len (height img) crop_y1 crop_y2 * slice_len (width img) crop_x1 crop_x2 * 3 > 0
            then Some (''data:image/jpeg;base64,'' @ imencode e (crop_x1, crop_y1, crop_x2, crop_y2))
            else None))"

text \<open>
  The inner loop (lines 794 to 840). A box is first appended to \<open>detected_objects\<close>;
  a person is skipped; the first other box whose centre is in the hand region is
  recorded and ends the loop.
\<close>

fun scan_boxes ::
  "env \<Rightarrow> image \<Rightarrow> int \<times> int \<times> int \<times> int \<Rightarrow> box list \<Rightarrow> scan_state \<Rightarrow> scan_state" where
  "scan_boxes e img hb [] s = s"
| "scan_boxes e img hb (b # bs) s =
     (let s1 = s\<lparr>detected_objects := detected_objects s @ [detected_entry b]\<rparr>
      in if is_person b then scan_boxes e img hb bs s1
         else if center_in_hand hb b then
           s1\<lparr>object_in_hand := True,
              object_bbox := matched_bbox b,
              max_confidence := max (max_confidence s1) (box_conf b),
              cropped_image :=
                (case crop_object e img b of
                   Some data \<Rightarrow> VStr data
                 | None \<Rightarrow> cropped_image s1)\<rparr>
         else scan_boxes e img hb bs s1)"

text \<open>The outer loop (lines 792 to 843), left as soon as an object is in the hand.\<close>

fun scan_results ::
  "env \<Rightarrow> image \<Rightarrow> int \<times> int \<times> int \<times> int \<Rightarrow> det_result list \<Rightarrow> scan_state \<Rightarrow> scan_state" where
  "scan_results e img hb [] s = s"
| "scan_results e img hb (r # rs) s =
     (case boxes r of
        None \<Rightarrow> scan_results e img hb rs s
      | Some bs \<Rightarrow>
          (let s1 = scan_boxes e img hb bs s
           in if object_in_hand s1 then s1 else scan_results e img hb rs s1))"

text \<open>
  The corners of \<^verbatim>\<open>hand_result["hand_bbox"]\<close> as the comparisons of lines 814 and 815
  read them; \<open>None\<close> when the value is not a dictionary holding four integers, where
  the comparison would raise.
\<close>

fun bbox_bounds :: "pyval \<Rightarrow> (int \<times> int \<times> int \<times> int) option" where
  "bbox_bounds (VDict d) =
     (case (map_of d ''x_min'', map_of d ''y_min'', map_of d ''x_max'', map_of d ''y_max'') of
        (Some (VInt x_min), Some (VInt y_min), Some (VInt x_max), Some (VInt y_max)) \<Rightarrow>
          Some (x_min, y_min, x_max, y_max)
      | _ \<Rightarrow> None)"
| "bbox_bounds v = None"

text \<open>The payload of the handler of \<^verbatim>\<open>except Exception\<close> (lines 855 to 862).\<close>

definition detection_error :: "pyexn \<Rightarrow> pydict" where
  "detection_error err = detection_failed (''Error: '' @ str_exn err)"

text \<open>The payload when no hand or no wrist was detected (lines 770 to 776).\<close>

definition without_object :: "pydict \<Rightarrow> pydict" where
  "without_object hand_result =
     dict_with hand_result
       [(''object_in_hand'', VBool False),
        (''cropped_image'', VNone),
        (''object_bbox'', VNone),
        (''detected_objects'', VList [])]"

text \<open>
  The detection endpoint (lines 742 to 862). Every exception is caught, so the result
  is always a payload. The corners of the hand region are read before the loop; a
  hand region without them cannot come out of \<open>detect_hand_wrist\<close>.
\<close>

definition detect_hand_wrist_endpoint :: "env \<Rightarrow> decode \<Rightarrow> http_exception + pydict" where
  "detect_hand_wrist_endpoint e request =
     (case request of
        DecodeError err \<Rightarrow> Inr (detection_error err)
      | NotAnImage \<Rightarrow> Inr (detection_failed ''Invalid image'')
      | Decoded img \<Rightarrow>
          (let hand_result = detect_hand_wrist e img
           in case map_of hand_result ''hand_detected'' of
                None \<Rightarrow> Inr (detection_error (KeyError ''hand_detected''))
              | Some hand \<Rightarrow>
            if \<not> truthy hand then Inr (without_object hand_result) else
            case map_of hand_result ''wrist_detected'' of
                None \<Rightarrow> Inr (detection_error (KeyError ''wrist_detected''))
              | Some wrist \<Rightarrow>
            if \<not> truthy wrist then Inr (without_object hand_result) else
            case map_of hand_result ''hand_bbox'' of
                None \<Rightarrow> Inr (detection_error (KeyError ''hand_bbox''))
              | Some hand_bbox \<Rightarrow>
            case yolo_detection_model e of
                None \<Rightarrow>
                  Inr (dict_with hand_result
                         [(''object_in_hand'', VBool False),
                          (''message'', VStr ''Detection model not loaded'')])
              | Some predict \<Rightarrow>
            case predict (3 / 10) (Some (45 / 100)) of
                Inl err \<Rightarrow> Inr (detection_error err)
              | Inr results \<Rightarrow>
            case bbox_bounds hand_bbox of
                None \<Rightarrow> Inr (detection_error (TypeError ''hand_bbox''))
              | Some hb \<Rightarrow>
            (let s = scan_results e img hb results scan_init
             in case (if object_in_hand s then Some (VFloat (max_confidence s))
                      else map_of hand_result ''confidence'') of
                  None \<Rightarrow> Inr (detection_error (KeyError ''confidence''))
                | Some conf \<Rightarrow>
                    Inr (dict_with hand_result
                           [(''object_in_hand'', VBool (object_in_hand s)),
                            (''cropped_image'', cropped_image s),
                            (''object_bbox'', object_bbox s),
                            (''detected_objects'', VList (detected_objects s)),
                            (''confidence'', conf),
                            (''message'',
                               VStr (if object_in_hand s then ''Hand, wrist, and object detected''
                                     else ''Hand/wrist detected, waiting for object''))]))))"

text \<open>
  The response of the classify endpoint, built from the verdict and the QR code. A
  missing key raises. The time stamp and the processing time of the response are
  readings of the clock and are left out, as are the statistics counters and the
  websocket notification, which do not change the response.
\<close>

definition getitem :: "pydict \<Rightarrow> string \<Rightarrow> pyval infer" where
  "getitem d k = (case map_of d k of None \<Rightarrow> Inl (KeyError k) | Some v \<Rightarrow> Inr v)"

definition classification_response :: "pydict \<Rightarrow> pyval \<Rightarrow> pydict infer" where
  "classification_response result qr_code =
     (case getitem result ''classification'' of Inl err \<Rightarrow> Inl err | Inr classification \<Rightarrow>
      case getitem result ''confidence'' of Inl err \<Rightarrow> Inl err | Inr conf \<Rightarrow>
      case getitem result ''item_name'' of Inl err \<Rightarrow> Inl err | Inr item_name \<Rightarrow>
      case getitem result ''bin_color'' of Inl err \<Rightarrow> Inl err | Inr bin_color \<Rightarrow>
      case getitem result ''explanation'' of Inl err \<Rightarrow> Inl err | Inr explanation \<Rightarrow>
        Inr [(''classification'', classification),
             (''confidence'', conf),
             (''item_name'', item_name),
             (''bin_color'', bin_color),
             (''qr_code'', qr_code),
             (''explanation'', explanation)])"

text \<open>The response of the handler of \<^verbatim>\<open>except Exception\<close> (lines 923 to 935).\<close>

definition fallback_response :: "pyexn \<Rightarrow> pydict" where
  "fallback_response err =
     (let fallback = get_fallback_classification
      in [(''classification'', the (map_of fallback ''classification'')),
          (''confidence'', the (map_of fallback ''confidence'')),
          (''item_name'', the (map_of fallback ''item_name'')),
          (''bin_color'', the (map_of fallback ''bin_color'')),
          (''qr_code'', VNone),
          (''explanation'', VStr (''Error: '' @ str_exn err @ ''. Using fallback.''))])"

text \<open>
  The classify endpoint (lines 873 to 935). \<open>qr\<close> is the result of
  \<^verbatim>\<open>generate_qr_code\<close>, which catches its own exceptions: a data URL or \<^verbatim>\<open>None\<close>.
  An \<^verbatim>\<open>HTTPException\<close> is raised again by its own handler; any other exception ends
  in the fallback response.
\<close>

definition classify_waste ::
  "env \<Rightarrow> decode \<Rightarrow> string option \<Rightarrow> (pydict \<Rightarrow> string option) \<Rightarrow> http_exception + pydict" where
  "classify_waste e request classification_method qr =
     (case request of
        DecodeError err \<Rightarrow> Inr (fallback_response err)
      | NotAnImage \<Rightarrow> Inl (HTTPException 400 ''Invalid image'')
      | Decoded img \<Rightarrow>
          (let result = classify e classification_method;
               qr_code = (case qr result of None \<Rightarrow> VNone | Some data \<Rightarrow> VStr data)
           in case classification_response result qr_code of
                Inl err \<Rightarrow> Inr (fallback_response err)
              | Inr response \<Rightarrow> Inr response))"

section \<open>Notions used to state the properties\<close>

text \<open>
  Following the words of the specification: the text between the first colon and the
  following period, when both exist.
\<close>

definition spec_item_text :: "string \<Rightarrow> string option" where
  "spec_item_text text =
     (if CHR '':'' \<in> set text then
        (let rest = tl (dropWhile (\<lambda>d. d \<noteq> CHR '':'') text)
         in if CHR ''.'' \<in> set rest then Some (takeWhile (\<lambda>d. d \<noteq> CHR ''.'') rest) else None)
      else None)"

text \<open>The first person of a pose result, when it has one.\<close>

definition first_person :: "pose_result \<Rightarrow> keypoint list option" where
  "first_person r = (case keypoints r of Some (kpts # others) \<Rightarrow> Some kpts | _ \<Rightarrow> None)"

text \<open>A first person with a wrist above the threshold.\<close>

definition has_wrist :: "pose_result \<Rightarrow> bool" where
  "has_wrist r =
     (case first_person r of
        Some kpts \<Rightarrow> wrist_accepted (kpts ! LEFT_WRIST) \<or> wrist_accepted (kpts ! RIGHT_WRIST)
      | None \<Rightarrow> False)"

text \<open>Every first person has the wrist rows (indices up to 10).\<close>

definition well_formed :: "pose_result list \<Rightarrow> bool" where
  "well_formed results =
     list_all (\<lambda>r. case first_person r of Some kpts \<Rightarrow> 11 \<le> length kpts | None \<Rightarrow> True) results"

text \<open>A field of an endpoint's payload; \<open>None\<close> when the key is missing or the endpoint raised.\<close>

definition payload_field :: "http_exception + pydict \<Rightarrow> string \<Rightarrow> pyval option" where
  "payload_field response k = (case response of Inl exn \<Rightarrow> None | Inr payload \<Rightarrow> map_of payload k)"

text \<open>The corners of the hand region of a detection result, when it has one.\<close>

definition hand_corners :: "pydict \<Rightarrow> (int \<times> int \<times> int \<times> int) option" where
  "hand_corners hand_result =
     (case map_of hand_result ''hand_bbox'' of Some v \<Rightarrow> bbox_bounds v | None \<Rightarrow> None)"

text \<open>The boxes of all results, in the order in which the detector returned them.\<close>

definition all_boxes :: "det_result list \<Rightarrow> box list" where
  "all_boxes results = concat (map (\<lambda>r. case boxes r of None \<Rightarrow> [] | Some bs \<Rightarrow> bs) results)"

text \<open>
  The object detector is loaded, its call at confidence 0.15 returns, and one of the
  boxes it returns is a person: what the fallback can see in the frame.
\<close>

definition person_seen :: "env \<Rightarrow> bool" where
  "person_seen e =
     (case yolo_detection_model e of
        None \<Rightarrow> False
      | Some predict \<Rightarrow>
          (case predict (15 / 100) None of
             Inl err \<Rightarrow> False
           | Inr results \<Rightarrow>
               list_ex (\<lambda>b. py_lower (box_class b) = ''person'') (all_boxes results)))"

text \<open>A box that can be the object in the hand: not a person, centre in the hand region.\<close>

definition holdable :: "int \<times> int \<times> int \<times> int \<Rightarrow> box \<Rightarrow> bool" where
  "holdable hb b = (\<not> is_person b \<and> center_in_hand hb b)"

text \<open>The boxes up to and including the first one that satisfies \<open>P\<close>.\<close>

fun up_to_first :: "('a \<Rightarrow> bool) \<Rightarrow> 'a list \<Rightarrow> 'a list" where
  "up_to_first P [] = []"
| "up_to_first P (x # xs) = (if P x then [x] else x # up_to_first P xs)"

section \<open>Concrete inputs\<close>

text \<open>A service in which no model is loaded and no cloud client is configured.\<close>

definition env_none :: env where
  "env_none =
     \<lparr>pose_model = None, yolo_detection_model = None, yolo_classification_model = None,
      genai_client = None, format_pct = (\<lambda>q. []), imencode = (\<lambda>c. [])\<rparr>"

text \<open>A frame of 1024 by 768 pixels.\<close>

definition frame :: image where
  "frame = \<lparr>height = 768, width = 1024\<rparr>"

text \<open>
  A keypoint row. The coordinates below are whole pixels; a confidence away from the
  thresholds is written as a decimal.
\<close>

definition kp :: "rat \<Rightarrow> rat \<Rightarrow> rat \<Rightarrow> keypoint" where
  "kp x y c = \<lparr>kp_x = x, kp_y = y, kp_conf = c\<rparr>"

text \<open>
  A skeleton of 17 keypoints, given by its shoulders, elbows and wrists (left before
  right); the head is in view and the legs are not.
\<close>

definition skeleton ::
  "keypoint \<Rightarrow> keypoint \<Rightarrow> keypoint \<Rightarrow> keypoint \<Rightarrow> keypoint \<Rightarrow> keypoint \<Rightarrow> keypoint list" where
  "skeleton ls rs le re lw rw =
     [kp 500 100 (9 / 10), kp 510 90 (9 / 10), kp 490 90 (9 / 10), kp 520 100 (8 / 10),
      kp 480 100 (8 / 10), ls, rs, le, re, lw, rw,
      kp 0 0 0, kp 0 0 0, kp 0 0 0, kp 0 0 0, kp 0 0 0, kp 0 0 0]"

text \<open>A service whose only model is a pose model that finds one person.\<close>

definition env_pose :: "keypoint list \<Rightarrow> env" where
  "env_pose kpts = env_none\<lparr>pose_model := Some (Inr [\<lparr>keypoints = Some [kpts]\<rparr>])\<rparr>"

text \<open>Both wrists at confidence 0.5.\<close>

definition tie_skeleton :: "keypoint list" where
  "tie_skeleton =
     skeleton (kp 400 200 (9 / 10)) (kp 600 200 (9 / 10)) (kp 300 300 (8 / 10)) (kp 700 300 (8 / 10))
       (kp 250 400 (1 / 2)) (kp 750 400 (1 / 2))"

text \<open>
  Both wrists at confidence 0.30, that is at the float32 nearest to 0.30, which is
  5033165 / 16777216.
\<close>

definition weak_skeleton :: "keypoint list" where
  "weak_skeleton =
     skeleton (kp 400 200 (9 / 10)) (kp 600 200 (9 / 10)) (kp 300 300 (8 / 10)) (kp 700 300 (8 / 10))
       (kp 250 400 (5033165 / 16777216)) (kp 750 400 (5033165 / 16777216))"

text \<open>
  A hand that reaches into the frame from the right: the left wrist is seen near the
  right edge, the elbow and the shoulder are out of view and come back at the origin
  with a low confidence.
\<close>

definition edge_skeleton :: "keypoint list" where
  "edge_skeleton =
     skeleton (kp 0 0 (1 / 100)) (kp 0 0 (1 / 100)) (kp 0 0 (5 / 100)) (kp 0 0 (1 / 100))
       (kp 1000 400 (9 / 10)) (kp 0 0 (1 / 100))"

text \<open>
  The boxes of one detector result, in the order returned, for the frame of
  \<open>tie_skeleton\<close>, whose hand region is (517, 185) to (1017, 685): a person; a cup
  whose centre (650, 686) is one pixel below the region; a bottle whose centre
  (517, 350) is on the left edge of the region; a phone whose centre (750, 350) is
  inside the region and whose confidence is the highest.
\<close>

definition person_box :: box where
  "person_box = \<lparr>box_class = ''person'', box_conf = 9 / 10, box_xyxy = (300, 0, 900, 768)\<rparr>"

definition cup_box :: box where
  "cup_box = \<lparr>box_class = ''cup'', box_conf = 8 / 10, box_xyxy = (600, 672, 700, 700)\<rparr>"

definition bottle_box :: box where
  "bottle_box = \<lparr>box_class = ''bottle'', box_conf = 7 / 10, box_xyxy = (500, 300, 534, 400)\<rparr>"

definition phone_box :: box where
  "phone_box = \<lparr>box_class = ''cell phone'', box_conf = 95 / 100, box_xyxy = (700, 300, 800, 400)\<rparr>"

definition held_results :: "det_result list" where
  "held_results = [\<lparr>boxes = Some [person_box, cup_box, bottle_box, phone_box]\<rparr>]"

text \<open>The detector as a function of its settings: the same boxes for every setting.\<close>

definition held_predict :: "rat \<Rightarrow> rat option \<Rightarrow> det_result list infer" where
  "held_predict conf iou = Inr held_results"

text \<open>A service with the pose model of \<open>tie_skeleton\<close> and this detector.\<close>

definition env_held :: env where
  "env_held = (env_pose tie_skeleton)\<lparr>yolo_detection_model := Some held_predict\<rparr>"

text \<open>The request's classification method and a QR encoder that returns nothing.\<close>

definition no_qr :: "pydict \<Rightarrow> string option" where
  "no_qr verdict = None"

text \<open>The same service when the detector returns only the person and the cup.\<close>

definition free_results :: "det_result list" where
  "free_results = [\<lparr>boxes = Some [person_box, cup_box]\<rparr>]"

definition free_predict :: "rat \<Rightarrow> rat option \<Rightarrow> det_result list infer" where
  "free_predict conf iou = Inr free_results"

definition env_free :: env where
  "env_free = (env_pose tie_skeleton)\<lparr>yolo_detection_model := Some free_predict\<rparr>"

text \<open>
  A service whose pose model finds the person of \<open>weak_skeleton\<close> and whose detector
  returns the person and the cup.
\<close>

definition env_weak_person :: env where
  "env_weak_person = (env_pose weak_skeleton)\<lparr>yolo_detection_model := Some free_predict\<rparr>"

section \<open>Facts about floating point\<close>

lemma ilog2_bounds:
  assumes "0 < q"
  shows "2 powi (ilog2 q) \<le> q \<and> q < 2 powi (ilog2 q + 1)"
proof (cases "1 \<le> q")
  case True
  then have pos: "0 < \<lfloor>q\<rfloor>" by linarith
  let ?b = "bitlen \<lfloor>q\<rfloor>"
  from bitlen_bounds[OF pos] have b: "2 ^ nat (?b - 1) \<le> \<lfloor>q\<rfloor>" "\<lfloor>q\<rfloor> < 2 ^ nat ?b"
    by auto
  have b1: "1 \<le> ?b" using pos by (simp add: bitlen_alt_def)
  have "(2::rat) ^ nat (?b - 1) \<le> of_int \<lfloor>q\<rfloor>"
    using b(1) by (metis of_int_le_iff of_int_numeral of_int_power)
  then have lo: "(2::rat) ^ nat (?b - 1) \<le> q"
    by (meson of_int_floor_le order_trans)
  have "\<lfloor>q\<rfloor> + 1 \<le> 2 ^ nat ?b" using b(2) by simp
  then have "(of_int (\<lfloor>q\<rfloor> + 1) :: rat) \<le> 2 ^ nat ?b"
    by (metis of_int_le_iff of_int_numeral of_int_power)
  then have hi: "q < (2::rat) ^ nat ?b"
    by (smt (verit, best) floor_correct of_int_add of_int_1 order_less_le_trans)
  show ?thesis
    using True lo hi b1 by (simp add: ilog2_def power_int_def)
next
  case False
  with assms have q1: "q < 1" by simp
  let ?n = "\<lceil>1 / q\<rceil>"
  have "1 < 1 / q" using assms q1 by (simp add: field_simps)
  then have n2: "2 \<le> ?n" by linarith
  then have pos: "0 < ?n - 1" by simp
  let ?t = "bitlen (?n - 1)"
  from bitlen_bounds[OF pos] have b: "2 ^ nat (?t - 1) \<le> ?n - 1" "?n - 1 < 2 ^ nat ?t"
    by auto
  have t1: "1 \<le> ?t" using pos by (simp add: bitlen_alt_def)
  have "?n \<le> 2 ^ nat ?t" using b(2) by simp
  then have "(of_int ?n :: rat) \<le> 2 ^ nat ?t"
    by (metis of_int_le_iff of_int_numeral of_int_power)
  then have "1 / q \<le> 2 ^ nat ?t"
    by (meson le_of_int_ceiling order_trans)
  then have lo: "inverse ((2::rat) ^ nat ?t) \<le> q"
    using assms by (simp add: field_simps)
  have "(2::rat) ^ nat (?t - 1) \<le> of_int (?n - 1)"
    using b(1) by (metis of_int_le_iff of_int_numeral of_int_power)
  moreover have "of_int (?n - 1) < 1 / q"
    by (simp add: ceiling_correct)
  ultimately have "(2::rat) ^ nat (?t - 1) < 1 / q" by linarith
  then have hi: "q < inverse ((2::rat) ^ nat (?t - 1))"
    using assms by (simp add: field_simps)
  have e: "ilog2 q = - ?t" using False by (simp add: ilog2_def)
  show ?thesis
  proof (cases "?t = 1")
    case True
    with lo hi show ?thesis
      unfolding e by (simp add: power_int_def power_one_over inverse_eq_divide)
  next
    case False
    with t1 have "1 < ?t" by simp
    then have "nat (?t - 1) = nat ?t - 1" "\<not> 0 \<le> - ?t + 1" "\<not> 0 \<le> - ?t"
      "nat (- (- ?t + 1)) = nat (?t - 1)"
      by simp_all
    with lo hi show ?thesis
      unfolding e by (simp add: power_int_def power_one_over inverse_eq_divide)
  qed
qed

lemma round_half_even_near: "\<bar>of_int (round_half_even x) - x\<bar> \<le> 1 / 2"
proof -
  define f where "f = \<lfloor>x\<rfloor>"
  have "of_int f \<le> x" "x < of_int f + 1"
    unfolding f_def by linarith+
  then have "\<bar>of_int (if x - of_int f < 1 / 2 then f
                      else if 1 / 2 < x - of_int f then f + 1
                      else if even f then f else f + 1) - x\<bar> \<le> 1 / 2"
    by (auto simp: abs_if)
  then show ?thesis
    unfolding round_half_even_def Let_def f_def .
qed

text \<open>
  The float32 nearest to 0.30 lies just above it, and the Python float 0.35 lies just
  below 0.35.
\<close>

lemma float32_threshold:
  "float32 (float64 (30 / 100)) = 5033165 / 16777216"
  "float32 (float64 (2 / 10)) = 13421773 / 67108864"
  "float64 (35 / 100) = 3152519739159347 / 9007199254740992"
  by code_simp+

lemma extend_beyond_example:
  "extend_beyond 0 (- 360) = - 125" "extend_beyond 1000 1000 = 1350" "extend_beyond 750 50 = 767"
  by code_simp+

section \<open>Facts about the string operations\<close>

lemma period_not_space: "\<not> is_space CHR ''.''"
  by (simp add: is_space_def)

lemma set_dropWhile_space: "CHR ''.'' \<in> set (dropWhile is_space s) \<longleftrightarrow> CHR ''.'' \<in> set s"
  by (induction s) (auto simp: period_not_space)

lemma strip_right_keeps_period:
  assumes "CHR ''.'' \<in> set a"
  shows "takeWhile (\<lambda>d. d \<noteq> CHR ''.'') (rev (dropWhile is_space (rev a))) = takeWhile (\<lambda>d. d \<noteq> CHR ''.'') a
    \<and> CHR ''.'' \<in> set (rev (dropWhile is_space (rev a)))"
proof -
  from assms obtain p q where a: "a = p @ CHR ''.'' # q" and p: "CHR ''.'' \<notin> set p"
    by (meson split_list_first)
  have "\<exists>x. dropWhile is_space (rev q @ CHR ''.'' # rev p) = x @ CHR ''.'' # rev p"
  proof (cases "\<forall>c\<in>set (rev q). is_space c")
    case True
    then have "dropWhile is_space (rev q @ CHR ''.'' # rev p) = dropWhile is_space (CHR ''.'' # rev p)"
      by (intro dropWhile_append2) auto
    then show ?thesis by (simp add: period_not_space)
  next
    case False
    then obtain c where "c \<in> set (rev q)" "\<not> is_space c" by blast
    then have "dropWhile is_space (rev q @ CHR ''.'' # rev p) = dropWhile is_space (rev q) @ CHR ''.'' # rev p"
      by (simp add: dropWhile_append1)
    then show ?thesis by blast
  qed
  then obtain x where "dropWhile is_space (rev a) = x @ CHR ''.'' # rev p"
    by (auto simp: a)
  then have r: "rev (dropWhile is_space (rev a)) = p @ CHR ''.'' # rev x"
    by simp
  have "takeWhile (\<lambda>d. d \<noteq> CHR ''.'') (p @ CHR ''.'' # rev x) = p"
       "takeWhile (\<lambda>d. d \<noteq> CHR ''.'') (p @ CHR ''.'' # q) = p"
    using p by (auto simp: takeWhile_tail)
  then show ?thesis unfolding r unfolding a by simp
qed

lemma takeWhile_dropWhile_space:
  "takeWhile (\<lambda>d. d \<noteq> CHR ''.'') (dropWhile is_space s) = dropWhile is_space (takeWhile (\<lambda>d. d \<noteq> CHR ''.'') s)"
  by (induction s) (auto simp: period_not_space)

lemma py_strip_dropWhile: "py_strip (dropWhile is_space s) = py_strip s"
  by (simp add: py_strip_def)

lemma take_find:
  "c \<in> set s \<Longrightarrow> take (nat (py_find s c)) s = takeWhile (\<lambda>d. d \<noteq> c) s"
  by (simp add: py_find_def takeWhile_eq_take[symmetric])

lemma py_find_minus1: "py_find s c = - 1 \<longleftrightarrow> c \<notin> set s"
  by (simp add: py_find_def)

lemma parse_item_name_spec:
  "parse_item_name text = (case spec_item_text text of Some s \<Rightarrow> py_strip s | None \<Rightarrow> ''Unknown Item'')"
proof (cases "CHR '':'' \<in> set text")
  case False
  then show ?thesis by (simp add: parse_item_name_def spec_item_text_def)
next
  case True
  define rest where "rest = tl (dropWhile (\<lambda>d. d \<noteq> CHR '':'') text)"
  have mem: "CHR ''.'' \<in> set (py_strip rest) \<longleftrightarrow> CHR ''.'' \<in> set rest"
    using strip_right_keeps_period[of "dropWhile is_space rest"] set_dropWhile_space[of rest]
    by (auto simp: py_strip_def dest: set_dropWhileD)
  show ?thesis
  proof (cases "CHR ''.'' \<in> set rest")
    case False
    with True mem show ?thesis
      by (simp add: parse_item_name_def spec_item_text_def py_split1_def rest_def py_find_minus1 Let_def)
  next
    case dot: True
    have "takeWhile (\<lambda>d. d \<noteq> CHR ''.'') (py_strip rest) = dropWhile is_space (takeWhile (\<lambda>d. d \<noteq> CHR ''.'') rest)"
      using strip_right_keeps_period[of "dropWhile is_space rest"] dot
      by (simp add: py_strip_def set_dropWhile_space takeWhile_dropWhile_space)
    then have "py_strip (take (nat (py_find (py_strip rest) CHR ''.'')) (py_strip rest)) = py_strip (takeWhile (\<lambda>d. d \<noteq> CHR ''.'') rest)"
      using mem dot by (simp add: take_find py_strip_dropWhile)
    with True dot mem show ?thesis
      by (simp add: parse_item_name_def spec_item_text_def py_split1_def rest_def[symmetric] py_find_minus1 Let_def)
  qed
qed

lemma starts_with_iff: "starts_with p s \<longleftrightarrow> (\<exists>t. s = p @ t)"
  by (induction p s rule: starts_with.induct) auto

lemma py_in_iff: "py_in needle hay \<longleftrightarrow> (\<exists>ps ss. hay = ps @ needle @ ss)"
proof (induction hay)
  case Nil
  then show ?case by auto
next
  case (Cons c cs)
  show ?case
  proof
    assume "py_in needle (c # cs)"
    then consider "starts_with needle (c # cs)" | "py_in needle cs" by auto
    then show "\<exists>ps ss. c # cs = ps @ needle @ ss"
    proof cases
      case 1
      then obtain t where "c # cs = needle @ t" by (auto simp: starts_with_iff)
      then have "c # cs = [] @ needle @ t" by simp
      then show ?thesis by blast
    next
      case 2
      then obtain ps ss where "cs = ps @ needle @ ss" using Cons.IH by blast
      then have "c # cs = (c # ps) @ needle @ ss" by simp
      then show ?thesis by blast
    qed
  next
    assume "\<exists>ps ss. c # cs = ps @ needle @ ss"
    then obtain ps ss where e: "c # cs = ps @ needle @ ss" by blast
    show "py_in needle (c # cs)"
    proof (cases ps)
      case Nil
      with e have "starts_with needle (c # cs)" by (auto simp: starts_with_iff)
      then show ?thesis by simp
    next
      case (Cons a as)
      with e have "cs = as @ needle @ ss" by simp
      then have "py_in needle cs" using Cons.IH by blast
      then show ?thesis by simp
    qed
  qed
qed

section \<open>Facts about the hand detector\<close>

lemma kpt_at_ok: "i < length kpts \<Longrightarrow> kpt_at kpts i = Inr (kpts ! i)"
  by (simp add: kpt_at_def)

lemma hand_found_list:
  "hand_found img w el sh n =
     [(''hand_detected'', VBool True),
      (''wrist_detected'', VBool True),
      (''hand_bbox'',
         VDict [(''x_min'', VInt (fst (hand_region img (hand_center w el sh)))),
                (''y_min'', VInt (fst (snd (hand_region img (hand_center w el sh))))),
                (''x_max'', VInt (fst (snd (snd (hand_region img (hand_center w el sh)))))),
                (''y_max'', VInt (snd (snd (snd (hand_region img (hand_center w el sh))))))]),
      (''wrist_position'', VDict [(''x'', VInt (int_trunc (kp_x w))), (''y'', VInt (int_trunc (kp_y w)))]),
      (''confidence'', VFloat (kp_conf w)),
      (''keypoints_count'', VInt (int n)),
      (''message'', VStr ''Hand and wrist detected successfully''),
      (''method'', VStr ''pose'')]"
  by (simp add: hand_found_def Let_def split_def)

lemma pose_person_wf:
  assumes "11 \<le> length kpts"
  shows "pose_person img kpts =
     (if wrist_accepted (kpts ! 9) \<or> wrist_accepted (kpts ! 10) then
        (if kp_conf (kpts ! 9) > kp_conf (kpts ! 10)
         then Inr (Some (hand_found img (kpts ! 9) (kpts ! 7) (kpts ! 5) (length kpts)))
         else Inr (Some (hand_found img (kpts ! 10) (kpts ! 8) (kpts ! 6) (length kpts))))
      else Inr None)"
  using assms
  by (simp add: pose_person_def kpt_at_ok LEFT_WRIST_def RIGHT_WRIST_def LEFT_ELBOW_def
      RIGHT_ELBOW_def LEFT_SHOULDER_def RIGHT_SHOULDER_def select_side_def)

lemma pose_person_found:
  assumes "pose_person img kpts = Inr (Some d)"
  shows "\<exists>w el sh. d = hand_found img w el sh (length kpts) \<and> wrist_accepted w"
proof -
  from assms have len: "11 \<le> length kpts"
    by (auto simp: pose_person_def kpt_at_def LEFT_WRIST_def RIGHT_WRIST_def split: if_splits sum.splits)
  from assms have acc: "wrist_accepted (kpts ! 9) \<or> wrist_accepted (kpts ! 10)"
    unfolding pose_person_wf[OF len] by (auto split: if_splits)
  show ?thesis
  proof (cases "kp_conf (kpts ! 9) > kp_conf (kpts ! 10)")
    case True
    with acc have "wrist_accepted (kpts ! 9)"
      by (auto simp: wrist_accepted_def)
    moreover from assms True acc have "d = hand_found img (kpts ! 9) (kpts ! 7) (kpts ! 5) (length kpts)"
      unfolding pose_person_wf[OF len] by (auto split: if_splits)
    ultimately show ?thesis by blast
  next
    case False
    with acc have "wrist_accepted (kpts ! 10)"
      by (auto simp: wrist_accepted_def)
    moreover from assms False acc have "d = hand_found img (kpts ! 10) (kpts ! 8) (kpts ! 6) (length kpts)"
      unfolding pose_person_wf[OF len] by (auto split: if_splits)
    ultimately show ?thesis by blast
  qed
qed

lemma pose_loop_found:
  "pose_loop img rs = Inr (Some d) \<Longrightarrow> \<exists>w el sh n. d = hand_found img w el sh n \<and> wrist_accepted w"
proof (induction rs)
  case Nil
  then show ?case by simp
next
  case (Cons r rs)
  show ?case
  proof (cases "\<exists>kpts others. keypoints r = Some (kpts # others) \<and> pose_person img kpts = Inr (Some d)")
    case True
    then show ?thesis using pose_person_found by blast
  next
    case False
    with Cons.prems have "pose_loop img rs = Inr (Some d)"
      by (auto split: option.splits list.splits sum.splits)
    then show ?thesis by (rule Cons.IH)
  qed
qed

lemma or_fallback_cases:
  "or_fallback e msg = no_detection msg \<or> or_fallback e msg = person_without_wrist"
  by (auto simp: or_fallback_def detect_person_fallback_def split: option.splits sum.splits)

lemma detect_hand_wrist_cases:
  "(\<exists>msg. detect_hand_wrist e img = no_detection msg)
   \<or> detect_hand_wrist e img = person_without_wrist
   \<or> (\<exists>w el sh n. detect_hand_wrist e img = hand_found img w el sh n \<and> wrist_accepted w)"
proof (cases "\<exists>found. pose_model e \<noteq> None \<and> (\<exists>rs. pose_model e = Some (Inr rs) \<and> pose_loop img rs = Inr (Some found))")
  case True
  then obtain rs found where "pose_model e = Some (Inr rs)" "pose_loop img rs = Inr (Some found)"
    by blast
  then show ?thesis
    using pose_loop_found[of img rs found] by (simp add: detect_hand_wrist_def)
next
  case False
  then have "\<exists>msg. detect_hand_wrist e img = or_fallback e msg"
    by (auto simp: detect_hand_wrist_def split: option.splits sum.splits)
  then show ?thesis using or_fallback_cases by metis
qed

lemma person_in_boxes_iff:
  "person_in_boxes bs = list_ex (\<lambda>b. py_lower (box_class b) = ''person'') bs"
  by (induction bs) (auto simp: is_person_def)

lemma person_in_results_iff:
  "person_in_results rs = list_ex (\<lambda>b. py_lower (box_class b) = ''person'') (all_boxes rs)"
  by (induction rs) (auto simp: all_boxes_def person_in_boxes_iff split: option.splits)

lemma detect_person_fallback_seen:
  "detect_person_fallback e = (if person_seen e then Some person_without_wrist else None)"
  by (auto simp: detect_person_fallback_def person_seen_def person_in_results_iff
      split: option.splits sum.splits)

lemma or_fallback_seen:
  "or_fallback e msg = (if person_seen e then person_without_wrist else no_detection msg)"
  by (simp add: or_fallback_def detect_person_fallback_seen)

lemma detect_hand_wrist_paths:
  "(\<exists>w el sh n. detect_hand_wrist e img = hand_found img w el sh n \<and> wrist_accepted w)
   \<or> (\<exists>msg. detect_hand_wrist e img = or_fallback e msg)"
proof (cases "\<exists>rs found. pose_model e = Some (Inr rs) \<and> pose_loop img rs = Inr (Some found)")
  case True
  then obtain rs found where "pose_model e = Some (Inr rs)" "pose_loop img rs = Inr (Some found)"
    by blast
  then show ?thesis
    using pose_loop_found[of img rs found] by (simp add: detect_hand_wrist_def)
next
  case False
  then have "\<exists>msg. detect_hand_wrist e img = or_fallback e msg"
    by (auto simp: detect_hand_wrist_def split: option.splits sum.splits)
  then show ?thesis by blast
qed

section \<open>Classification\<close>

text \<open>
  C1. When the local classifier is not loaded and the cloud client is not configured,
  \<open>classify\<close> returns exactly the fallback verdict, whatever the requested method:
  classification Non-Recyclable, item name "Unknown Item", confidence 0.50, method
  fallback. The same holds for each of the two paths taken alone.
\<close>

theorem classify_total_failure:
  "yolo_classification_model e = None \<Longrightarrow> genai_client e = None \<Longrightarrow>
   classify e m = get_fallback_classification
   \<and> classify_with_yolo_model e = get_fallback_classification
   \<and> classify_with_gemini e = get_fallback_classification
   \<and> map_of (classify e m) ''classification'' = Some (VStr ''Non-Recyclable'')
   \<and> map_of (classify e m) ''item_name'' = Some (VStr ''Unknown Item'')
   \<and> map_of (classify e m) ''confidence'' = Some (VFloat (50 / 100))
   \<and> map_of (classify e m) ''method'' = Some (VStr ''fallback'')"
  by (simp add: classify_def classify_with_yolo_model_def classify_with_gemini_def
      get_fallback_classification_def)

theorem classify_total_failure_witness:
  "yolo_classification_model env_none = None \<and> genai_client env_none = None
   \<and> classify env_none (Some ''model'') = get_fallback_classification"
  using classify_total_failure[of env_none "Some ''model''"]
  by (simp add: env_none_def)

text \<open>
  C7. Parsing the cloud model's answer. The classification is Recyclable exactly when
  the lowered text contains "recyclable" and does not contain "non-recyclable", and
  Non-Recyclable otherwise; in particular a text containing both is Non-Recyclable.
  The item name is the text between the first colon and the following period when both
  exist (\<open>spec_item_text\<close>), without the white space around it, as in the example of the
  claim, and "Unknown Item" otherwise. The confidence is 0.85 and the method is llm.
  The answer "Recyclable: Plastic Bottle. Clean plastic can be recycled." gives
  Recyclable, "Plastic Bottle" and 0.85.
\<close>

theorem parse_gemini_response_spec:
  "map_of (parse_gemini_response text) ''classification'' =
     Some (VStr (if py_in ''recyclable'' (py_lower text) \<and> \<not> py_in ''non-recyclable'' (py_lower text)
                 then ''Recyclable'' else ''Non-Recyclable''))
   \<and> map_of (parse_gemini_response text) ''item_name'' =
     Some (VStr (case spec_item_text text of Some s \<Rightarrow> py_strip s | None \<Rightarrow> ''Unknown Item''))
   \<and> map_of (parse_gemini_response text) ''confidence'' = Some (VFloat (85 / 100))
   \<and> map_of (parse_gemini_response text) ''method'' = Some (VStr ''llm'')
   \<and> (py_in ''recyclable'' (py_lower text) \<and> py_in ''non-recyclable'' (py_lower text) \<longrightarrow>
        map_of (parse_gemini_response text) ''classification'' = Some (VStr ''Non-Recyclable''))
   \<and> map_of (parse_gemini_response ''Recyclable: Plastic Bottle. Clean plastic can be recycled.'')
        ''classification'' = Some (VStr ''Recyclable'')
   \<and> map_of (parse_gemini_response ''Recyclable: Plastic Bottle. Clean plastic can be recycled.'')
        ''item_name'' = Some (VStr ''Plastic Bottle'')
   \<and> map_of (parse_gemini_response ''Recyclable: Plastic Bottle. Clean plastic can be recycled.'')
        ''confidence'' = Some (VFloat (85 / 100))"
proof -
  have ex: "parse_classification ''Recyclable: Plastic Bottle. Clean plastic can be recycled.'' = Recyclable"
    by code_simp
  have ex2: "parse_item_name ''Recyclable: Plastic Bottle. Clean plastic can be recycled.'' = ''Plastic Bottle''"
    by code_simp
  show ?thesis
    by (simp add: parse_gemini_response_def Let_def parse_item_name_spec[symmetric] ex ex2)
       (simp add: parse_classification_def Let_def)
qed

theorem parse_gemini_response_spec_witness:
  "py_in ''recyclable'' (py_lower ''Non-Recyclable: Foam Cup. Recyclable it is not.'')
   \<and> py_in ''non-recyclable'' (py_lower ''Non-Recyclable: Foam Cup. Recyclable it is not.'')
   \<and> map_of (parse_gemini_response ''Non-Recyclable: Foam Cup. Recyclable it is not.'') ''classification''
       = Some (VStr ''Non-Recyclable'')
   \<and> map_of (parse_gemini_response ''Non-Recyclable: Foam Cup. Recyclable it is not.'') ''item_name''
       = Some (VStr ''Foam Cup'')"
proof -
  have a: "py_in ''recyclable'' (py_lower ''Non-Recyclable: Foam Cup. Recyclable it is not.'')"
    by code_simp
  have b: "py_in ''non-recyclable'' (py_lower ''Non-Recyclable: Foam Cup. Recyclable it is not.'')"
    by code_simp
  have c: "spec_item_text ''Non-Recyclable: Foam Cup. Recyclable it is not.'' = Some '' Foam Cup''"
    by code_simp
  have d: "py_strip '' Foam Cup'' = ''Foam Cup''"
    by code_simp
  show ?thesis
    using parse_gemini_response_spec[of "''Non-Recyclable: Foam Cup. Recyclable it is not.''"] a b
    by (simp add: c d)
qed

section \<open>Hand and wrist detection\<close>

lemma map_of_no_detection:
  "map_of (no_detection msg) ''hand_detected'' = Some (VBool False)"
  "map_of (no_detection msg) ''wrist_detected'' = Some (VBool False)"
  "map_of (no_detection msg) ''hand_bbox'' = Some VNone"
  "map_of (no_detection msg) ''confidence'' = Some (VFloat 0)"
  "map_of (no_detection msg) ''method'' = None"
  by (simp_all add: no_detection_def)

lemma map_of_person_without_wrist:
  "map_of person_without_wrist ''hand_detected'' = Some (VBool False)"
  "map_of person_without_wrist ''wrist_detected'' = Some (VBool False)"
  "map_of person_without_wrist ''hand_bbox'' = Some VNone"
  "map_of person_without_wrist ''confidence'' = Some (VFloat 0)"
  "map_of person_without_wrist ''method'' = Some (VStr ''fallback_failed'')"
  by (simp_all add: person_without_wrist_def)

lemma map_of_hand_found:
  "map_of (hand_found img w el sh n) ''hand_detected'' = Some (VBool True)"
  "map_of (hand_found img w el sh n) ''wrist_detected'' = Some (VBool True)"
  "map_of (hand_found img w el sh n) ''wrist_position'' =
     Some (VDict [(''x'', VInt (int_trunc (kp_x w))), (''y'', VInt (int_trunc (kp_y w)))])"
  "map_of (hand_found img w el sh n) ''confidence'' = Some (VFloat (kp_conf w))"
  "map_of (hand_found img w el sh n) ''method'' = Some (VStr ''pose'')"
  by (simp_all add: hand_found_list)

lemma hand_corners_hand_found:
  "hand_corners (hand_found img w el sh n) = Some (hand_region img (hand_center w el sh))"
  by (simp add: hand_corners_def hand_found_list)

lemma hand_corners_none:
  "hand_corners (no_detection msg) = None" "hand_corners person_without_wrist = None"
  by (simp_all add: hand_corners_def no_detection_def person_without_wrist_def)

text \<open>
  C2, as amended. Every result of \<open>detect_hand_wrist\<close> is well formed: a detected hand
  implies a detected wrist, which implies that the hand region (four integer corners)
  and the wrist position are present; method fallback_failed implies that no hand is
  detected. The method is pose exactly when a hand is detected; it is fallback_failed
  exactly when no hand is detected and the fallback sees a person (the detector is
  loaded, returns, and reports a person box); and the key is absent exactly when no
  hand is detected and the fallback sees no person. No result holds a value "none".
\<close>

theorem detection_result_well_formed:
  "(map_of (detect_hand_wrist e img) ''hand_detected'' = Some (VBool True) \<longrightarrow>
      map_of (detect_hand_wrist e img) ''wrist_detected'' = Some (VBool True))
   \<and> (map_of (detect_hand_wrist e img) ''wrist_detected'' = Some (VBool True) \<longrightarrow>
        (\<exists>hb. hand_corners (detect_hand_wrist e img) = Some hb)
        \<and> (\<exists>x y. map_of (detect_hand_wrist e img) ''wrist_position'' =
                   Some (VDict [(''x'', VInt x), (''y'', VInt y)])))
   \<and> (map_of (detect_hand_wrist e img) ''method'' = Some (VStr ''fallback_failed'') \<longrightarrow>
        map_of (detect_hand_wrist e img) ''hand_detected'' = Some (VBool False))
   \<and> (map_of (detect_hand_wrist e img) ''method'' = Some (VStr ''pose'')) =
       (map_of (detect_hand_wrist e img) ''hand_detected'' = Some (VBool True))
   \<and> (map_of (detect_hand_wrist e img) ''method'' = None
       \<or> map_of (detect_hand_wrist e img) ''method'' = Some (VStr ''pose'')
       \<or> map_of (detect_hand_wrist e img) ''method'' = Some (VStr ''fallback_failed''))
   \<and> (map_of (detect_hand_wrist e img) ''method'' = Some (VStr ''fallback_failed'')) =
       (map_of (detect_hand_wrist e img) ''hand_detected'' = Some (VBool False) \<and> person_seen e)
   \<and> (map_of (detect_hand_wrist e img) ''method'' = None) =
       (map_of (detect_hand_wrist e img) ''hand_detected'' = Some (VBool False) \<and> \<not> person_seen e)
   \<and> (map_of (detect_hand_wrist e img) ''hand_detected'' = Some (VBool True)
       \<or> map_of (detect_hand_wrist e img) ''hand_detected'' = Some (VBool False))"
proof -
  from detect_hand_wrist_paths[of e img]
  have "(\<exists>w el sh n. detect_hand_wrist e img = hand_found img w el sh n)
      \<or> (person_seen e \<and> detect_hand_wrist e img = person_without_wrist)
      \<or> (\<not> person_seen e \<and> (\<exists>msg. detect_hand_wrist e img = no_detection msg))"
    by (cases "person_seen e") (auto simp: or_fallback_seen)
  then consider (hand) w el sh n where "detect_hand_wrist e img = hand_found img w el sh n"
    | (person) "person_seen e" "detect_hand_wrist e img = person_without_wrist"
    | (nothing) msg where "\<not> person_seen e" "detect_hand_wrist e img = no_detection msg"
    by blast
  then show ?thesis
  proof cases
    case hand
    then show ?thesis
      by (simp add: map_of_hand_found hand_corners_hand_found hand_region_def Let_def)
  next
    case person
    then show ?thesis
      by (simp add: map_of_person_without_wrist hand_corners_none)
  next
    case nothing
    then show ?thesis
      by (simp add: map_of_no_detection hand_corners_none)
  qed
qed

theorem detection_result_well_formed_witness:
  "map_of (detect_hand_wrist (env_pose tie_skeleton) frame) ''hand_detected'' = Some (VBool True)
   \<and> map_of (detect_hand_wrist (env_pose tie_skeleton) frame) ''wrist_detected'' = Some (VBool True)
   \<and> map_of (detect_hand_wrist (env_pose tie_skeleton) frame) ''method'' = Some (VStr ''pose'')
   \<and> hand_corners (detect_hand_wrist (env_pose tie_skeleton) frame) = Some (517, 185, 1017, 685)
   \<and> person_seen env_weak_person
   \<and> map_of (detect_hand_wrist env_weak_person frame) ''hand_detected'' = Some (VBool False)
   \<and> map_of (detect_hand_wrist env_weak_person frame) ''method'' = Some (VStr ''fallback_failed'')
   \<and> \<not> person_seen (env_pose weak_skeleton)
   \<and> map_of (detect_hand_wrist (env_pose weak_skeleton) frame) ''hand_detected'' = Some (VBool False)
   \<and> map_of (detect_hand_wrist (env_pose weak_skeleton) frame) ''method'' = None"
proof -
  have a: "map_of (detect_hand_wrist (env_pose tie_skeleton) frame) ''hand_detected'' = Some (VBool True)"
    by code_simp
  have b: "hand_corners (detect_hand_wrist (env_pose tie_skeleton) frame) = Some (517, 185, 1017, 685)"
    by code_simp
  have c: "person_seen env_weak_person"
    by code_simp
  have d: "map_of (detect_hand_wrist env_weak_person frame) ''hand_detected'' = Some (VBool False)"
    by code_simp
  have f: "\<not> person_seen (env_pose weak_skeleton)"
    by code_simp
  have g: "map_of (detect_hand_wrist (env_pose weak_skeleton) frame) ''hand_detected'' = Some (VBool False)"
    by code_simp
  show ?thesis
    using detection_result_well_formed[of "env_pose tie_skeleton" frame]
      detection_result_well_formed[of env_weak_person frame]
      detection_result_well_formed[of "env_pose weak_skeleton" frame]
      a b c d f g
    by blast
qed

text \<open>
  Against C2 as stated: with no model loaded the result has no \<open>method\<close> key, so the
  field is not present.
\<close>

theorem method_absent_without_models:
  "map_of (detect_hand_wrist env_none frame) ''method'' = None
   \<and> map_of (detect_hand_wrist env_none frame) ''hand_detected'' = Some (VBool False)"
  by code_simp

lemma pose_loop_step:
  assumes "case first_person r of Some kpts \<Rightarrow> 11 \<le> length kpts | None \<Rightarrow> True"
  shows "pose_loop img (r # rs) =
     (if has_wrist r then
        (case first_person r of
           Some kpts \<Rightarrow>
             (if kp_conf (kpts ! LEFT_WRIST) > kp_conf (kpts ! RIGHT_WRIST)
              then Inr (Some (hand_found img (kpts ! LEFT_WRIST) (kpts ! LEFT_ELBOW) (kpts ! LEFT_SHOULDER) (length kpts)))
              else Inr (Some (hand_found img (kpts ! RIGHT_WRIST) (kpts ! RIGHT_ELBOW) (kpts ! RIGHT_SHOULDER) (length kpts))))
         | None \<Rightarrow> pose_loop img rs)
      else pose_loop img rs)"
proof (cases "first_person r")
  case None
  then show ?thesis
    by (auto simp: first_person_def has_wrist_def split: option.splits list.splits)
next
  case (Some kpts)
  with assms have len: "11 \<le> length kpts" by simp
  from Some obtain others where k: "keypoints r = Some (kpts # others)"
    by (auto simp: first_person_def split: option.splits list.splits)
  show ?thesis
    using Some k
    by (simp add: has_wrist_def pose_person_wf[OF len] LEFT_WRIST_def RIGHT_WRIST_def LEFT_ELBOW_def
        RIGHT_ELBOW_def LEFT_SHOULDER_def RIGHT_SHOULDER_def)
qed

lemma pose_loop_none:
  "well_formed rs \<Longrightarrow> \<not> list_ex has_wrist rs \<Longrightarrow> pose_loop img rs = Inr None"
proof (induction rs)
  case Nil
  then show ?case by simp
next
  case (Cons r rs)
  then show ?case
    by (simp add: pose_loop_step well_formed_def del: pose_loop.simps)
qed

lemma pose_loop_some:
  "well_formed rs \<Longrightarrow> list_ex has_wrist rs \<Longrightarrow> \<exists>d. pose_loop img rs = Inr (Some d)"
proof (induction rs)
  case Nil
  then show ?case by simp
next
  case (Cons r rs)
  then show ?case
    by (auto simp: pose_loop_step well_formed_def has_wrist_def simp del: pose_loop.simps
        split: option.splits)
qed

lemma wrist_accepted_iff: "wrist_accepted w = (5033165 / 16777216 < kp_conf w)"
  unfolding wrist_accepted_def WRIST_CONFIDENCE_THRESHOLD_def float32_threshold(1) by simp

text \<open>
  C3. A wrist is accepted exactly when its confidence is strictly above 0.30, compared
  as the code compares it: both sides are float32, and 0.30 is the float32 nearest to
  it, 5033165 / 16777216. A wrist whose confidence is exactly that value is rejected,
  as is every confidence at or below the number 0.30. For a pose model that returns
  well-formed skeletons, \<open>detect_hand_wrist\<close> reports a hand exactly when some result's
  first person has an accepted wrist, and the confidence it reports is then above the
  threshold. When no wrist is accepted the detector goes on to the fallback: the
  result is the fallback's dictionary with method fallback_failed when the fallback
  sees a person, and the dictionary without a hand and without a method otherwise;
  neither reports a hand.
\<close>

theorem wrist_threshold_strict:
  assumes "pose_model e = Some (Inr results)" and "well_formed results"
  shows "wrist_accepted w = (float32 (float64 (30 / 100)) < kp_conf w)
    \<and> float32 (float64 (30 / 100)) = 5033165 / 16777216
    \<and> \<not> wrist_accepted \<lparr>kp_x = x, kp_y = y, kp_conf = float32 (float64 (30 / 100))\<rparr>
    \<and> (kp_conf w \<le> 30 / 100 \<longrightarrow> \<not> wrist_accepted w)
    \<and> (map_of (detect_hand_wrist e img) ''hand_detected'' = Some (VBool True)) = list_ex has_wrist results
    \<and> (list_ex has_wrist results \<longrightarrow>
         (\<exists>c. map_of (detect_hand_wrist e img) ''confidence'' = Some (VFloat c)
              \<and> float32 (float64 (30 / 100)) < c))
    \<and> (\<not> list_ex has_wrist results \<longrightarrow>
         detect_hand_wrist e img =
           (if person_seen e then person_without_wrist
            else no_detection ''No person or hands detected'')
         \<and> map_of (detect_hand_wrist e img) ''hand_detected'' = Some (VBool False)
         \<and> map_of (detect_hand_wrist e img) ''method'' =
             (if person_seen e then Some (VStr ''fallback_failed'') else None))"
proof -
  have thr: "float32 (float64 (30 / 100)) = 5033165 / 16777216"
    by (rule float32_threshold(1))
  have acc: "wrist_accepted v = (5033165 / 16777216 < kp_conf v)" for v
    by (rule wrist_accepted_iff)
  have low: "kp_conf w \<le> 30 / 100 \<longrightarrow> \<not> wrist_accepted w"
    unfolding acc by simp
  show ?thesis
  proof (cases "list_ex has_wrist results")
    case True
    then obtain d where d: "pose_loop img results = Inr (Some d)"
      using pose_loop_some[OF assms(2)] by blast
    then obtain w' el sh n where "d = hand_found img w' el sh n" "wrist_accepted w'"
      using pose_loop_found by blast
    with d assms(1) have "detect_hand_wrist e img = hand_found img w' el sh n"
      "5033165 / 16777216 < kp_conf w'"
      by (simp_all add: detect_hand_wrist_def acc)
    with True low show ?thesis
      unfolding thr by (simp add: map_of_hand_found acc)
  next
    case False
    then have "pose_loop img results = Inr None"
      using pose_loop_none[OF assms(2)] by blast
    with assms(1) have r: "detect_hand_wrist e img =
        (if person_seen e then person_without_wrist else no_detection ''No person or hands detected'')"
      by (simp add: detect_hand_wrist_def or_fallback_seen)
    have "map_of (detect_hand_wrist e img) ''hand_detected'' = Some (VBool False)"
      "map_of (detect_hand_wrist e img) ''method'' =
         (if person_seen e then Some (VStr ''fallback_failed'') else None)"
      unfolding r by (simp_all add: map_of_no_detection map_of_person_without_wrist)
    with False r low show ?thesis
      unfolding thr by (simp add: acc)
  qed
qed

theorem wrist_threshold_strict_witness:
  "pose_model (env_pose weak_skeleton) = Some (Inr [\<lparr>keypoints = Some [weak_skeleton]\<rparr>])
   \<and> pose_model env_weak_person = Some (Inr [\<lparr>keypoints = Some [weak_skeleton]\<rparr>])
   \<and> well_formed [\<lparr>keypoints = Some [weak_skeleton]\<rparr>]
   \<and> \<not> list_ex has_wrist [\<lparr>keypoints = Some [weak_skeleton]\<rparr>]
   \<and> kp_conf (weak_skeleton ! LEFT_WRIST) = 5033165 / 16777216
   \<and> kp_conf (weak_skeleton ! RIGHT_WRIST) = 5033165 / 16777216
   \<and> \<not> person_seen (env_pose weak_skeleton)
   \<and> detect_hand_wrist (env_pose weak_skeleton) frame = no_detection ''No person or hands detected''
   \<and> map_of (detect_hand_wrist (env_pose weak_skeleton) frame) ''hand_detected'' = Some (VBool False)
   \<and> map_of (detect_hand_wrist (env_pose weak_skeleton) frame) ''method'' = None
   \<and> person_seen env_weak_person
   \<and> detect_hand_wrist env_weak_person frame = person_without_wrist
   \<and> map_of (detect_hand_wrist env_weak_person frame) ''hand_detected'' = Some (VBool False)
   \<and> map_of (detect_hand_wrist env_weak_person frame) ''method'' = Some (VStr ''fallback_failed'')"
proof -
  have a: "pose_model (env_pose weak_skeleton) = Some (Inr [\<lparr>keypoints = Some [weak_skeleton]\<rparr>])"
    by (simp add: env_pose_def env_none_def)
  have a': "pose_model env_weak_person = Some (Inr [\<lparr>keypoints = Some [weak_skeleton]\<rparr>])"
    by (simp add: env_weak_person_def env_pose_def env_none_def)
  have b: "well_formed [\<lparr>keypoints = Some [weak_skeleton]\<rparr>]"
    by code_simp
  have c: "\<not> list_ex has_wrist [\<lparr>keypoints = Some [weak_skeleton]\<rparr>]"
    by code_simp
  have d: "kp_conf (weak_skeleton ! LEFT_WRIST) = 5033165 / 16777216"
    "kp_conf (weak_skeleton ! RIGHT_WRIST) = 5033165 / 16777216"
    by code_simp+
  have f: "\<not> person_seen (env_pose weak_skeleton)" "person_seen env_weak_person"
    by code_simp+
  have g: "detect_hand_wrist (env_pose weak_skeleton) frame = no_detection ''No person or hands detected''
    \<and> map_of (detect_hand_wrist (env_pose weak_skeleton) frame) ''hand_detected'' = Some (VBool False)
    \<and> map_of (detect_hand_wrist (env_pose weak_skeleton) frame) ''method'' = None"
    using wrist_threshold_strict[where img = frame and w = "weak_skeleton ! LEFT_WRIST" and x = 0 and y = 0, OF a b]
      c f(1) by auto
  have h: "detect_hand_wrist env_weak_person frame = person_without_wrist
    \<and> map_of (detect_hand_wrist env_weak_person frame) ''hand_detected'' = Some (VBool False)
    \<and> map_of (detect_hand_wrist env_weak_person frame) ''method'' = Some (VStr ''fallback_failed'')"
    using wrist_threshold_strict[where img = frame and w = "weak_skeleton ! LEFT_WRIST" and x = 0 and y = 0, OF a' b]
      c f(2) by auto
  show ?thesis
    using a a' b c d f g h by blast
qed

text \<open>
  C4, as amended. The arm is the left one exactly when the left wrist's confidence is
  strictly higher than the right wrist's; otherwise, and so for every pair of equal
  confidences, it is the right one. The result of \<open>detect_hand_wrist\<close> is built from
  the wrist, elbow and shoulder of that arm.
\<close>

theorem dominant_arm_selection:
  assumes "pose_model e = Some (Inr (r # rs))" and "first_person r = Some kpts"
    and "11 \<le> length kpts" and "has_wrist r"
  shows "select_side (kpts ! LEFT_WRIST) (kpts ! RIGHT_WRIST) =
           (if kp_conf (kpts ! LEFT_WRIST) > kp_conf (kpts ! RIGHT_WRIST) then Left else Right)
    \<and> (kp_conf (kpts ! LEFT_WRIST) = kp_conf (kpts ! RIGHT_WRIST) \<longrightarrow>
         select_side (kpts ! LEFT_WRIST) (kpts ! RIGHT_WRIST) = Right)
    \<and> detect_hand_wrist e img =
        (case select_side (kpts ! LEFT_WRIST) (kpts ! RIGHT_WRIST) of
           Left \<Rightarrow> hand_found img (kpts ! LEFT_WRIST) (kpts ! LEFT_ELBOW) (kpts ! LEFT_SHOULDER) (length kpts)
         | Right \<Rightarrow> hand_found img (kpts ! RIGHT_WRIST) (kpts ! RIGHT_ELBOW) (kpts ! RIGHT_SHOULDER) (length kpts))"
proof -
  have "case first_person r of Some kpts \<Rightarrow> 11 \<le> length kpts | None \<Rightarrow> True"
    using assms(2,3) by simp
  from pose_loop_step[OF this, of img rs] assms show ?thesis
    by (simp add: detect_hand_wrist_def select_side_def)
qed

theorem dominant_arm_selection_witness:
  "pose_model (env_pose tie_skeleton) = Some (Inr [\<lparr>keypoints = Some [tie_skeleton]\<rparr>])
   \<and> first_person \<lparr>keypoints = Some [tie_skeleton]\<rparr> = Some tie_skeleton
   \<and> 11 \<le> length tie_skeleton
   \<and> has_wrist \<lparr>keypoints = Some [tie_skeleton]\<rparr>
   \<and> kp_conf (tie_skeleton ! LEFT_WRIST) = kp_conf (tie_skeleton ! RIGHT_WRIST)
   \<and> select_side (tie_skeleton ! LEFT_WRIST) (tie_skeleton ! RIGHT_WRIST) = Right
   \<and> detect_hand_wrist (env_pose tie_skeleton) frame =
       hand_found frame (tie_skeleton ! RIGHT_WRIST) (tie_skeleton ! RIGHT_ELBOW)
         (tie_skeleton ! RIGHT_SHOULDER) (length tie_skeleton)"
proof -
  have a: "pose_model (env_pose tie_skeleton) = Some (Inr [\<lparr>keypoints = Some [tie_skeleton]\<rparr>])"
    by (simp add: env_pose_def env_none_def)
  have b: "first_person \<lparr>keypoints = Some [tie_skeleton]\<rparr> = Some tie_skeleton"
    by (simp add: first_person_def)
  have c: "11 \<le> length tie_skeleton"
    by (simp add: tie_skeleton_def skeleton_def)
  have d: "has_wrist \<lparr>keypoints = Some [tie_skeleton]\<rparr>"
    by code_simp
  have e: "kp_conf (tie_skeleton ! LEFT_WRIST) = kp_conf (tie_skeleton ! RIGHT_WRIST)"
    by code_simp
  show ?thesis
    using dominant_arm_selection[OF a b c d, of frame] a b c d e by simp
qed

text \<open>
  Against C4 as stated: with both wrists at confidence 0.5 (left wrist at x = 250,
  right wrist at x = 750) the right arm is selected and the reported wrist position
  is that of the right wrist.
\<close>

theorem tie_resolves_to_right:
  "kp_conf (tie_skeleton ! LEFT_WRIST) = 1 / 2
   \<and> kp_conf (tie_skeleton ! RIGHT_WRIST) = 1 / 2
   \<and> select_side (tie_skeleton ! LEFT_WRIST) (tie_skeleton ! RIGHT_WRIST) = Right
   \<and> int_trunc (kp_x (tie_skeleton ! LEFT_WRIST)) = 250
   \<and> int_trunc (kp_x (tie_skeleton ! RIGHT_WRIST)) = 750
   \<and> map_of (detect_hand_wrist (env_pose tie_skeleton) frame) ''wrist_position''
       = Some (VDict [(''x'', VInt 750), (''y'', VInt 400)])"
  by code_simp

text \<open>
  What the two one-sided clamps of the hand region give: the left and upper edges are
  never negative and the right and lower edges never exceed the frame, and the edges
  are ordered as long as the hand centre is within 250 pixels of the frame.
\<close>

lemma hand_region_one_sided:
  assumes "hand_region img (cx, cy) = (x_min, y_min, x_max, y_max)"
  shows "0 \<le> x_min \<and> 0 \<le> y_min \<and> x_max \<le> width img \<and> y_max \<le> height img
    \<and> (- 250 \<le> cx \<and> cx \<le> width img + 250 \<and> 0 \<le> width img \<longrightarrow> x_min \<le> x_max)
    \<and> (- 250 \<le> cy \<and> cy \<le> height img + 250 \<and> 0 \<le> height img \<longrightarrow> y_min \<le> y_max)"
  using assms by (auto simp: hand_region_def box_size_def Let_def)

text \<open>
  C5 fails on the code. In a frame of 1024 by 768 pixels, a left wrist at (1000, 400)
  with confidence 0.9, a left elbow of confidence 0.05 and a left shoulder at (0, 0)
  give the hand centre (1350, 540), and the reported hand region has x_min = 1100,
  which is larger than x_max = 1024 and than the width of the frame.
\<close>

theorem hand_region_not_ordered:
  "map_of (detect_hand_wrist (env_pose edge_skeleton) frame) ''hand_detected'' = Some (VBool True)
   \<and> hand_corners (detect_hand_wrist (env_pose edge_skeleton) frame) = Some (1100, 290, 1024, 768)
   \<and> hand_center (edge_skeleton ! LEFT_WRIST) (edge_skeleton ! LEFT_ELBOW) (edge_skeleton ! LEFT_SHOULDER)
       = (1350, 540)
   \<and> width frame = 1024 \<and> height frame = 768"
  by code_simp

section \<open>The detection and classify endpoints\<close>

lemma find_append_first:
  "find P (xs @ ys) = (case find P xs of None \<Rightarrow> find P ys | Some x \<Rightarrow> Some x)"
  by (induction xs) auto

lemma up_to_first_append:
  "up_to_first P (xs @ ys) =
     (case find P xs of None \<Rightarrow> xs @ up_to_first P ys | Some x \<Rightarrow> up_to_first P xs)"
  by (induction xs) (auto split: option.splits)

lemma up_to_first_none: "find P xs = None \<Longrightarrow> up_to_first P xs = xs"
  by (induction xs) (auto split: if_splits)

lemma scan_boxes_spec:
  "scan_boxes e img hb bs s =
     (case find (holdable hb) bs of
        None \<Rightarrow> s\<lparr>detected_objects := detected_objects s @ map detected_entry bs\<rparr>
      | Some b \<Rightarrow>
          s\<lparr>detected_objects := detected_objects s @ map detected_entry (up_to_first (holdable hb) bs),
            object_in_hand := True,
            object_bbox := matched_bbox b,
            max_confidence := max (max_confidence s) (box_conf b),
            cropped_image := (case crop_object e img b of Some data \<Rightarrow> VStr data
                              | None \<Rightarrow> cropped_image s)\<rparr>)"
proof (induction bs arbitrary: s)
  case Nil
  then show ?case by simp
next
  case (Cons b bs)
  show ?case
  proof (cases "holdable hb b")
    case True
    then show ?thesis by (simp add: holdable_def Let_def split: option.splits)
  next
    case False
    then have "scan_boxes e img hb (b # bs) s =
        scan_boxes e img hb bs (s\<lparr>detected_objects := detected_objects s @ [detected_entry b]\<rparr>)"
      by (auto simp: holdable_def Let_def)
    with False show ?thesis
      by (simp add: Cons.IH split: option.splits)
  qed
qed

lemma scan_boxes_in_hand:
  "object_in_hand (scan_boxes e img hb bs s) = (object_in_hand s \<or> find (holdable hb) bs \<noteq> None)"
  by (simp add: scan_boxes_spec split: option.splits)

lemma scan_boxes_append:
  "scan_boxes e img hb (bs @ cs) s =
     (if find (holdable hb) bs = None then scan_boxes e img hb cs (scan_boxes e img hb bs s)
      else scan_boxes e img hb bs s)"
proof (induction bs arbitrary: s)
  case Nil
  then show ?case by simp
next
  case (Cons b bs)
  then show ?case by (simp add: Let_def holdable_def)
qed

lemma scan_results_spec:
  "\<not> object_in_hand s \<Longrightarrow> scan_results e img hb rs s = scan_boxes e img hb (all_boxes rs) s"
proof (induction rs arbitrary: s)
  case Nil
  then show ?case by (simp add: all_boxes_def)
next
  case (Cons r rs)
  show ?case
  proof (cases "boxes r")
    case None
    with Cons show ?thesis by (simp add: all_boxes_def)
  next
    case (Some bs)
    have ab: "all_boxes (r # rs) = bs @ all_boxes rs"
      using Some by (simp add: all_boxes_def)
    show ?thesis
    proof (cases "find (holdable hb) bs")
      case None
      then have "\<not> object_in_hand (scan_boxes e img hb bs s)"
        using Cons.prems by (simp add: scan_boxes_in_hand)
      with None Some show ?thesis
        by (simp add: ab scan_boxes_append Cons.IH Let_def)
    next
      case (Some b)
      then have "object_in_hand (scan_boxes e img hb bs s)"
        by (simp add: scan_boxes_in_hand)
      with Some \<open>boxes r = Some bs\<close> show ?thesis
        by (simp add: ab scan_boxes_append Let_def)
    qed
  qed
qed

lemma endpoint_merged:
  assumes hc: "hand_corners (detect_hand_wrist e img) = Some hb"
    and det: "yolo_detection_model e = Some predict"
    and res: "predict (3 / 10) (Some (45 / 100)) = Inr results"
  shows "\<exists>w el sh n. detect_hand_wrist e img = hand_found img w el sh n
    \<and> detect_hand_wrist_endpoint e (Decoded img) =
        Inr (let s = scan_boxes e img hb (all_boxes results) scan_init
             in dict_with (hand_found img w el sh n)
                  [(''object_in_hand'', VBool (object_in_hand s)),
                   (''cropped_image'', cropped_image s),
                   (''object_bbox'', object_bbox s),
                   (''detected_objects'', VList (detected_objects s)),
                   (''confidence'',
                      if object_in_hand s then VFloat (max_confidence s) else VFloat (kp_conf w)),
                   (''message'',
                      VStr (if object_in_hand s then ''Hand, wrist, and object detected''
                            else ''Hand/wrist detected, waiting for object''))])"
proof -
  from detect_hand_wrist_cases[of e img] hc
  obtain w el sh n where d: "detect_hand_wrist e img = hand_found img w el sh n"
    by (auto simp: hand_corners_none)
  have hb: "map_of (hand_found img w el sh n) ''hand_bbox'' \<noteq> None"
    "bbox_bounds (the (map_of (hand_found img w el sh n) ''hand_bbox'')) = Some hb"
    using hc unfolding d by (auto simp: hand_corners_def split: option.splits)
  have init: "\<not> object_in_hand scan_init" by (simp add: scan_init_def)
  have "detect_hand_wrist_endpoint e (Decoded img) =
        Inr (let s = scan_boxes e img hb (all_boxes results) scan_init
             in dict_with (hand_found img w el sh n)
                  [(''object_in_hand'', VBool (object_in_hand s)),
                   (''cropped_image'', cropped_image s),
                   (''object_bbox'', object_bbox s),
                   (''detected_objects'', VList (detected_objects s)),
                   (''confidence'',
                      if object_in_hand s then VFloat (max_confidence s) else VFloat (kp_conf w)),
                   (''message'',
                      VStr (if object_in_hand s then ''Hand, wrist, and object detected''
                            else ''Hand/wrist detected, waiting for object''))])"
    using hb det res
    by (auto simp: detect_hand_wrist_endpoint_def d map_of_hand_found Let_def
        scan_results_spec[OF init] split: option.splits)
  with d show ?thesis by blast
qed

lemma payload_merged:
  "payload_field (Inr (dict_with d
       [(''object_in_hand'', v1), (''cropped_image'', v2), (''object_bbox'', v3),
        (''detected_objects'', v4), (''confidence'', v5), (''message'', v6)])) k =
     (if k = ''message'' then Some v6
      else if k = ''confidence'' then Some v5
      else if k = ''detected_objects'' then Some v4
      else if k = ''object_bbox'' then Some v3
      else if k = ''cropped_image'' then Some v2
      else if k = ''object_in_hand'' then Some v1
      else map_of d k)"
  by (simp add: payload_field_def dict_with_def update_conv')

lemma endpoint_fields:
  assumes hc: "hand_corners (detect_hand_wrist e img) = Some hb"
    and det: "yolo_detection_model e = Some predict"
    and res: "predict (3 / 10) (Some (45 / 100)) = Inr results"
  shows "payload_field (detect_hand_wrist_endpoint e (Decoded img)) ''object_in_hand'' =
           Some (VBool (find (holdable hb) (all_boxes results) \<noteq> None))"
    and "payload_field (detect_hand_wrist_endpoint e (Decoded img)) ''object_bbox'' =
           Some (case find (holdable hb) (all_boxes results) of
                   None \<Rightarrow> VNone | Some b \<Rightarrow> matched_bbox b)"
    and "payload_field (detect_hand_wrist_endpoint e (Decoded img)) ''detected_objects'' =
           Some (VList (map detected_entry (up_to_first (holdable hb) (all_boxes results))))"
    and "payload_field (detect_hand_wrist_endpoint e (Decoded img)) ''confidence'' =
           (case find (holdable hb) (all_boxes results) of
              None \<Rightarrow> map_of (detect_hand_wrist e img) ''confidence''
            | Some b \<Rightarrow> Some (VFloat (max 0 (box_conf b))))"
proof -
  from endpoint_merged[OF assms] obtain w el sh n where
    d: "detect_hand_wrist e img = hand_found img w el sh n" and
    r: "detect_hand_wrist_endpoint e (Decoded img) =
        Inr (let s = scan_boxes e img hb (all_boxes results) scan_init
             in dict_with (hand_found img w el sh n)
                  [(''object_in_hand'', VBool (object_in_hand s)),
                   (''cropped_image'', cropped_image s),
                   (''object_bbox'', object_bbox s),
                   (''detected_objects'', VList (detected_objects s)),
                   (''confidence'',
                      if object_in_hand s then VFloat (max_confidence s) else VFloat (kp_conf w)),
                   (''message'',
                      VStr (if object_in_hand s then ''Hand, wrist, and object detected''
                            else ''Hand/wrist detected, waiting for object''))])"
    by blast
  show "payload_field (detect_hand_wrist_endpoint e (Decoded img)) ''object_in_hand'' =
           Some (VBool (find (holdable hb) (all_boxes results) \<noteq> None))"
    unfolding r Let_def payload_merged
    by (simp add: scan_boxes_spec scan_init_def split: option.splits)
  show "payload_field (detect_hand_wrist_endpoint e (Decoded img)) ''object_bbox'' =
           Some (case find (holdable hb) (all_boxes results) of
                   None \<Rightarrow> VNone | Some b \<Rightarrow> matched_bbox b)"
    unfolding r Let_def payload_merged
    by (simp add: scan_boxes_spec scan_init_def split: option.splits)
  show "payload_field (detect_hand_wrist_endpoint e (Decoded img)) ''detected_objects'' =
           Some (VList (map detected_entry (up_to_first (holdable hb) (all_boxes results))))"
    unfolding r Let_def payload_merged
    by (simp add: scan_boxes_spec scan_init_def up_to_first_none split: option.splits)
  show "payload_field (detect_hand_wrist_endpoint e (Decoded img)) ''confidence'' =
           (case find (holdable hb) (all_boxes results) of
              None \<Rightarrow> map_of (detect_hand_wrist e img) ''confidence''
            | Some b \<Rightarrow> Some (VFloat (max 0 (box_conf b))))"
    unfolding r Let_def payload_merged d
    by (simp add: scan_boxes_spec scan_init_def map_of_hand_found split: option.splits)
qed

lemma endpoint_without_detector:
  assumes hc: "hand_corners (detect_hand_wrist e img) = Some hb"
    and det: "yolo_detection_model e = None"
  shows "payload_field (detect_hand_wrist_endpoint e (Decoded img)) ''detected_objects'' = None"
proof -
  from detect_hand_wrist_cases[of e img] hc
  obtain w el sh n where d: "detect_hand_wrist e img = hand_found img w el sh n"
    by (auto simp: hand_corners_none)
  have hb: "map_of (hand_found img w el sh n) ''hand_bbox'' \<noteq> None"
    using hc unfolding d by (auto simp: hand_corners_def split: option.splits)
  have "detect_hand_wrist_endpoint e (Decoded img) =
      Inr (dict_with (hand_found img w el sh n)
             [(''object_in_hand'', VBool False), (''message'', VStr ''Detection model not loaded'')])"
    using hb det
    by (auto simp: detect_hand_wrist_endpoint_def d map_of_hand_found Let_def split: option.splits)
  then show ?thesis
    by (simp add: payload_field_def dict_with_def update_conv' hand_found_list)
qed

text \<open>
  C6. When a hand region \<open>hb\<close> was detected and the detector returns, the boxes are
  examined in the order returned; \<open>object_in_hand\<close> is true exactly when some box is
  not a person and has its centre inside the hand region, bounds included, and
  \<open>object_bbox\<close> then records the corners, class and confidence of the first such box
  (every box before it is a person or has its centre outside), whatever comes after
  it: the scan stops there, and the boxes after it are not even listed. A centre on
  the boundary is inside; one pixel further it is not.
\<close>

theorem object_in_hand_first_match:
  assumes "hand_corners (detect_hand_wrist e img) = Some hb"
    and "yolo_detection_model e = Some predict"
    and "predict (3 / 10) (Some (45 / 100)) = Inr results"
  shows "payload_field (detect_hand_wrist_endpoint e (Decoded img)) ''object_in_hand'' =
           Some (VBool (find (holdable hb) (all_boxes results) \<noteq> None))
    \<and> payload_field (detect_hand_wrist_endpoint e (Decoded img)) ''object_bbox'' =
           Some (case find (holdable hb) (all_boxes results) of
                   None \<Rightarrow> VNone
                 | Some b \<Rightarrow>
                     VDict [(''x_min'', VInt (fst (box_corners b))),
                            (''y_min'', VInt (fst (snd (box_corners b)))),
                            (''x_max'', VInt (fst (snd (snd (box_corners b))))),
                            (''y_max'', VInt (snd (snd (snd (box_corners b))))),
                            (''class'', VStr (box_class b)),
                            (''confidence'', VFloat (box_conf b))])
    \<and> (find (holdable hb) (all_boxes results) = Some b \<longrightarrow>
         (\<exists>i < length (all_boxes results).
            all_boxes results ! i = b \<and> holdable hb b
            \<and> (\<forall>j < i. \<not> holdable hb (all_boxes results ! j))))
    \<and> payload_field (detect_hand_wrist_endpoint e (Decoded img)) ''detected_objects'' =
           Some (VList (map detected_entry (up_to_first (holdable hb) (all_boxes results))))
    \<and> holdable (x_min, y_min, x_max, y_max) c =
         (py_lower (box_class c) \<noteq> ''person''
          \<and> x_min \<le> fst (box_center c) \<and> fst (box_center c) \<le> x_max
          \<and> y_min \<le> snd (box_center c) \<and> snd (box_center c) \<le> y_max)"
proof -
  have bbox: "matched_bbox b' =
      VDict [(''x_min'', VInt (fst (box_corners b'))),
             (''y_min'', VInt (fst (snd (box_corners b')))),
             (''x_max'', VInt (fst (snd (snd (box_corners b'))))),
             (''y_max'', VInt (snd (snd (snd (box_corners b'))))),
             (''class'', VStr (box_class b')),
             (''confidence'', VFloat (box_conf b'))]" for b'
    by (simp add: matched_bbox_def split_def)
  have first: "find (holdable hb) (all_boxes results) = Some b \<longrightarrow>
         (\<exists>i < length (all_boxes results).
            all_boxes results ! i = b \<and> holdable hb b
            \<and> (\<forall>j < i. \<not> holdable hb (all_boxes results ! j)))"
    by (auto simp: find_Some_iff)
  have inside: "holdable (x_min, y_min, x_max, y_max) c =
         (py_lower (box_class c) \<noteq> ''person''
          \<and> x_min \<le> fst (box_center c) \<and> fst (box_center c) \<le> x_max
          \<and> y_min \<le> snd (box_center c) \<and> snd (box_center c) \<le> y_max)"
    by (simp add: holdable_def is_person_def center_in_hand_def split_def)
  show ?thesis
    using endpoint_fields(1,2,3)[OF assms] first inside
    by (simp add: bbox cong: option.case_cong)
qed

theorem object_in_hand_first_match_witness:
  "hand_corners (detect_hand_wrist env_held frame) = Some (517, 185, 1017, 685)
   \<and> yolo_detection_model env_held = Some held_predict
   \<and> held_predict (3 / 10) (Some (45 / 100)) = Inr held_results
   \<and> all_boxes held_results = [person_box, cup_box, bottle_box, phone_box]
   \<and> box_center person_box = (600, 384)
   \<and> box_center cup_box = (650, 686)
   \<and> box_center bottle_box = (517, 350)
   \<and> box_center phone_box = (750, 350)
   \<and> find (holdable (517, 185, 1017, 685)) (all_boxes held_results) = Some bottle_box
   \<and> \<not> holdable (517, 185, 1017, 685) person_box
   \<and> \<not> holdable (517, 185, 1017, 685) cup_box
   \<and> holdable (517, 185, 1017, 685) phone_box
   \<and> payload_field (detect_hand_wrist_endpoint env_held (Decoded frame)) ''object_in_hand''
       = Some (VBool True)
   \<and> payload_field (detect_hand_wrist_endpoint env_held (Decoded frame)) ''object_bbox''
       = Some (VDict [(''x_min'', VInt 500), (''y_min'', VInt 300),
                      (''x_max'', VInt 534), (''y_max'', VInt 400),
                      (''class'', VStr ''bottle''), (''confidence'', VFloat (7 / 10))])"
proof -
  have a: "hand_corners (detect_hand_wrist env_held frame) = Some (517, 185, 1017, 685)"
    by code_simp
  have b: "yolo_detection_model env_held = Some held_predict"
    by (simp add: env_held_def)
  have c: "held_predict (3 / 10) (Some (45 / 100)) = Inr held_results"
    by (simp add: held_predict_def)
  have d: "all_boxes held_results = [person_box, cup_box, bottle_box, phone_box]"
    by (simp add: all_boxes_def held_results_def)
  have e: "box_center person_box = (600, 384)" "box_center cup_box = (650, 686)"
    "box_center bottle_box = (517, 350)" "box_center phone_box = (750, 350)"
    by code_simp+
  have f: "find (holdable (517, 185, 1017, 685)) (all_boxes held_results) = Some bottle_box"
    unfolding d by code_simp
  have g: "box_corners bottle_box = (500, 300, 534, 400)" "box_class bottle_box = ''bottle''"
    "box_conf bottle_box = 7 / 10"
    by code_simp+
  have h: "\<not> holdable (517, 185, 1017, 685) person_box" "\<not> holdable (517, 185, 1017, 685) cup_box"
    "holdable (517, 185, 1017, 685) phone_box"
    by code_simp+
  show ?thesis
    using object_in_hand_first_match[OF a b c, of bottle_box] a b c d e f h
    by (simp add: g)
qed

text \<open>
  C8, as amended. When a hand region was detected and the detector returns, the
  response's \<open>detected_objects\<close> lists, in order, the boxes returned by the detector
  up to and including the first box that is in the hand; the boxes after it are not
  listed. When no box is in the hand the list covers every box returned. When the
  detector is not loaded the response has no \<open>detected_objects\<close> key.
\<close>

theorem detected_objects_up_to_match:
  assumes "hand_corners (detect_hand_wrist e img) = Some hb"
  shows "(yolo_detection_model e = Some predict \<and> predict (3 / 10) (Some (45 / 100)) = Inr results \<longrightarrow>
           payload_field (detect_hand_wrist_endpoint e (Decoded img)) ''detected_objects'' =
             Some (VList (map detected_entry (up_to_first (holdable hb) (all_boxes results))))
           \<and> (find (holdable hb) (all_boxes results) = None \<longrightarrow>
                payload_field (detect_hand_wrist_endpoint e (Decoded img)) ''detected_objects'' =
                  Some (VList (map detected_entry (all_boxes results)))))
    \<and> (yolo_detection_model e = None \<longrightarrow>
          payload_field (detect_hand_wrist_endpoint e (Decoded img)) ''detected_objects'' = None)"
proof (intro conjI impI)
  assume "yolo_detection_model e = Some predict \<and> predict (3 / 10) (Some (45 / 100)) = Inr results"
  then show "payload_field (detect_hand_wrist_endpoint e (Decoded img)) ''detected_objects'' =
             Some (VList (map detected_entry (up_to_first (holdable hb) (all_boxes results))))"
    using endpoint_fields(3)[OF assms] by blast
next
  assume "yolo_detection_model e = Some predict \<and> predict (3 / 10) (Some (45 / 100)) = Inr results"
    and "find (holdable hb) (all_boxes results) = None"
  then show "payload_field (detect_hand_wrist_endpoint e (Decoded img)) ''detected_objects'' =
             Some (VList (map detected_entry (all_boxes results)))"
    using endpoint_fields(3)[OF assms, of predict results] by (simp add: up_to_first_none)
next
  assume "yolo_detection_model e = None"
  then show "payload_field (detect_hand_wrist_endpoint e (Decoded img)) ''detected_objects'' = None"
    using endpoint_without_detector[OF assms] by simp
qed

theorem detected_objects_up_to_match_witness:
  "hand_corners (detect_hand_wrist env_free frame) = Some (517, 185, 1017, 685)
   \<and> yolo_detection_model env_free = Some free_predict
   \<and> free_predict (3 / 10) (Some (45 / 100)) = Inr free_results
   \<and> all_boxes free_results = [person_box, cup_box]
   \<and> find (holdable (517, 185, 1017, 685)) (all_boxes free_results) = None
   \<and> payload_field (detect_hand_wrist_endpoint env_free (Decoded frame)) ''detected_objects'' =
       Some (VList [detected_entry person_box, detected_entry cup_box])"
proof -
  have a: "hand_corners (detect_hand_wrist env_free frame) = Some (517, 185, 1017, 685)"
    by code_simp
  have b: "yolo_detection_model env_free = Some free_predict"
    by (simp add: env_free_def)
  have c: "free_predict (3 / 10) (Some (45 / 100)) = Inr free_results"
    by (simp add: free_predict_def)
  have d: "all_boxes free_results = [person_box, cup_box]"
    by (simp add: all_boxes_def free_results_def)
  have f: "find (holdable (517, 185, 1017, 685)) (all_boxes free_results) = None"
    unfolding d by code_simp
  have "payload_field (detect_hand_wrist_endpoint env_free (Decoded frame)) ''detected_objects'' =
      Some (VList (map detected_entry (all_boxes free_results)))"
    using detected_objects_up_to_match[OF a, of free_predict free_results] b c f by blast
  then have p: "payload_field (detect_hand_wrist_endpoint env_free (Decoded frame)) ''detected_objects'' =
      Some (VList [detected_entry person_box, detected_entry cup_box])"
    by (simp add: d)
  show ?thesis
    using a b c d f p by blast
qed

text \<open>
  Against C8 as stated: the detector returns four boxes and the third is in the hand;
  the response lists the first three, and the fourth box is missing from
  \<open>detected_objects\<close>.
\<close>

theorem detected_objects_stop_at_match:
  "all_boxes held_results = [person_box, cup_box, bottle_box, phone_box]
   \<and> payload_field (detect_hand_wrist_endpoint env_held (Decoded frame)) ''hand_detected''
       = Some (VBool True)
   \<and> payload_field (detect_hand_wrist_endpoint env_held (Decoded frame)) ''wrist_detected''
       = Some (VBool True)
   \<and> payload_field (detect_hand_wrist_endpoint env_held (Decoded frame)) ''detected_objects''
       = Some (VList [detected_entry person_box, detected_entry cup_box, detected_entry bottle_box])"
  by code_simp

text \<open>
  C10. In the merged response, when an object is in the hand the top-level
  \<open>confidence\<close> is the detection confidence of the matched box, in place of the wrist
  confidence of the hand result; when no object is matched it is the confidence of the
  hand result, unchanged. Detection confidences are not negative (the code takes the
  larger of 0.0 and the box's confidence).
\<close>

theorem merged_confidence:
  assumes "hand_corners (detect_hand_wrist e img) = Some hb"
    and "yolo_detection_model e = Some predict"
    and "predict (3 / 10) (Some (45 / 100)) = Inr results"
    and "list_all (\<lambda>b. 0 \<le> box_conf b) (all_boxes results)"
  shows "case find (holdable hb) (all_boxes results) of
           Some b \<Rightarrow>
             payload_field (detect_hand_wrist_endpoint e (Decoded img)) ''object_in_hand''
               = Some (VBool True)
             \<and> payload_field (detect_hand_wrist_endpoint e (Decoded img)) ''confidence''
               = Some (VFloat (box_conf b))
         | None \<Rightarrow>
             payload_field (detect_hand_wrist_endpoint e (Decoded img)) ''object_in_hand''
               = Some (VBool False)
             \<and> payload_field (detect_hand_wrist_endpoint e (Decoded img)) ''confidence''
               = map_of (detect_hand_wrist e img) ''confidence''"
proof (cases "find (holdable hb) (all_boxes results)")
  case None
  then show ?thesis
    using endpoint_fields(1,4)[OF assms(1,2,3)] by simp
next
  case (Some b)
  then have "b \<in> set (all_boxes results)"
    by (auto simp: find_Some_iff)
  with assms(4) have "0 \<le> box_conf b"
    by (simp add: list_all_iff)
  with Some show ?thesis
    using endpoint_fields(1,4)[OF assms(1,2,3)] by simp
qed

theorem merged_confidence_witness:
  "hand_corners (detect_hand_wrist env_held frame) = Some (517, 185, 1017, 685)
   \<and> yolo_detection_model env_held = Some held_predict
   \<and> held_predict (3 / 10) (Some (45 / 100)) = Inr held_results
   \<and> list_all (\<lambda>b. 0 \<le> box_conf b) (all_boxes held_results)
   \<and> find (holdable (517, 185, 1017, 685)) (all_boxes held_results) = Some bottle_box
   \<and> map_of (detect_hand_wrist env_held frame) ''confidence'' = Some (VFloat (1 / 2))
   \<and> payload_field (detect_hand_wrist_endpoint env_held (Decoded frame)) ''confidence''
       = Some (VFloat (7 / 10))"
proof -
  have a: "hand_corners (detect_hand_wrist env_held frame) = Some (517, 185, 1017, 685)"
    by code_simp
  have b: "yolo_detection_model env_held = Some held_predict"
    by (simp add: env_held_def)
  have c: "held_predict (3 / 10) (Some (45 / 100)) = Inr held_results"
    by (simp add: held_predict_def)
  have d: "list_all (\<lambda>b. 0 \<le> box_conf b) (all_boxes held_results)"
    by code_simp
  have f: "find (holdable (517, 185, 1017, 685)) (all_boxes held_results) = Some bottle_box"
    by code_simp
  have g: "map_of (detect_hand_wrist env_held frame) ''confidence'' = Some (VFloat (1 / 2))"
    by code_simp
  have h: "box_conf bottle_box = 7 / 10"
    by code_simp
  show ?thesis
    using merged_confidence[OF a b c d] a b c d f g
    by (simp add: h)
qed

text \<open>
  C9, as amended. When the request's bytes do not decode to an image, the detection
  endpoint answers with an ordinary payload (no hand, no wrist, no object, message
  "Invalid image") and raises nothing, and the classify endpoint raises the client
  error 400 "Invalid image"; it does not return the fallback classification. Only
  when decoding itself raises does the classify endpoint answer with the fallback
  classification, and the detection endpoint with a payload whose message is the
  error.
\<close>

theorem invalid_image_handling:
  "detect_hand_wrist_endpoint e NotAnImage =
     Inr [(''hand_detected'', VBool False), (''wrist_detected'', VBool False),
          (''object_in_hand'', VBool False), (''message'', VStr ''Invalid image'')]
   \<and> classify_waste e NotAnImage m qr = Inl (HTTPException 400 ''Invalid image'')
   \<and> detect_hand_wrist_endpoint e (DecodeError err) =
       Inr [(''hand_detected'', VBool False), (''wrist_detected'', VBool False),
            (''object_in_hand'', VBool False), (''message'', VStr (''Error: '' @ str_exn err))]
   \<and> classify_waste e (DecodeError err) m qr =
       Inr [(''classification'', VStr ''Non-Recyclable''),
            (''confidence'', VFloat (50 / 100)),
            (''item_name'', VStr ''Unknown Item''),
            (''bin_color'', VStr ''Black''),
            (''qr_code'', VNone),
            (''explanation'', VStr (''Error: '' @ str_exn err @ ''. Using fallback.''))]"
  by (simp add: detect_hand_wrist_endpoint_def classify_waste_def detection_failed_def
      detection_error_def fallback_response_def get_fallback_classification_def)

text \<open>
  Against C9 as stated: for an input that does not decode to an image the classify
  endpoint raises 400 and the detection endpoint returns a payload without raising.
\<close>

theorem classify_raises_on_invalid_image:
  "classify_waste env_none NotAnImage None no_qr = Inl (HTTPException 400 ''Invalid image'')
   \<and> detect_hand_wrist_endpoint env_none NotAnImage = Inr (detection_failed ''Invalid image'')"
  by (simp add: classify_waste_def detect_hand_wrist_endpoint_def)

end
